theory Spec2Isabelle
  imports Main
begin

section \<open>Conventions\<close>

text \<open>
  The development follows \<^verbatim>\<open>library/twopence.c\<close> and \<^verbatim>\<open>library/ssh.c\<close>.
  A C name that starts with two underscores is written with the prefix \<open>uu_\<close>
  (\<^verbatim>\<open>__twopence_ssh_init\<close> is \<open>uu_twopence_ssh_init\<close>). A pointer is an integer
  or a natural number with 0 for \<^verbatim>\<open>NULL\<close>, or an \<open>option\<close> where the pointed-to
  value is kept in place. A C string is a \<open>string\<close> without its terminating NUL.
\<close>

subsection \<open>Result codes\<close>

text \<open>
  The header \<^verbatim>\<open>twopence.h\<close> gives the result codes their numbers. The code only
  names them, so the functions that return or compare them take the numbering as the
  parameter \<open>ec\<close>. The comments of the code call them negative error codes.
\<close>

datatype twopence_code =
    TWOPENCE_PARAMETER_ERROR
  | TWOPENCE_OPEN_SESSION_ERROR
  | TWOPENCE_SEND_COMMAND_ERROR
  | TWOPENCE_FORWARD_INPUT_ERROR
  | TWOPENCE_RECEIVE_RESULTS_ERROR
  | TWOPENCE_COMMAND_TIMEOUT_ERROR
  | TWOPENCE_LOCAL_FILE_ERROR
  | TWOPENCE_SEND_FILE_ERROR
  | TWOPENCE_REMOTE_FILE_ERROR
  | TWOPENCE_RECEIVE_FILE_ERROR
  | TWOPENCE_INTERRUPT_COMMAND_ERROR
  | TWOPENCE_INVALID_TARGET_SPEC
  | TWOPENCE_UNKNOWN_PLUGIN
  | TWOPENCE_INCOMPATIBLE_PLUGIN
  | TWOPENCE_NOT_SUPPORTED

type_synonym code_values = "twopence_code \<Rightarrow> int"

definition all_codes :: "twopence_code list" where
  "all_codes =
     [TWOPENCE_PARAMETER_ERROR, TWOPENCE_OPEN_SESSION_ERROR, TWOPENCE_SEND_COMMAND_ERROR,
      TWOPENCE_FORWARD_INPUT_ERROR, TWOPENCE_RECEIVE_RESULTS_ERROR,
      TWOPENCE_COMMAND_TIMEOUT_ERROR, TWOPENCE_LOCAL_FILE_ERROR, TWOPENCE_SEND_FILE_ERROR,
      TWOPENCE_REMOTE_FILE_ERROR, TWOPENCE_RECEIVE_FILE_ERROR,
      TWOPENCE_INTERRUPT_COMMAND_ERROR, TWOPENCE_INVALID_TARGET_SPEC,
      TWOPENCE_UNKNOWN_PLUGIN, TWOPENCE_INCOMPATIBLE_PLUGIN, TWOPENCE_NOT_SUPPORTED]"

text \<open>A numbering is admissible when the codes are pairwise different and negative.\<close>

definition codes_ok :: "code_values \<Rightarrow> bool" where
  "codes_ok ec \<longleftrightarrow> distinct (map ec all_codes) \<and> list_all (\<lambda>c. ec c < 0) all_codes"

text \<open>One admissible numbering, for evaluation at concrete inputs.\<close>

definition sample_codes :: code_values where
  "sample_codes c =
     (case c of
        TWOPENCE_PARAMETER_ERROR \<Rightarrow> - 1
      | TWOPENCE_OPEN_SESSION_ERROR \<Rightarrow> - 2
      | TWOPENCE_SEND_COMMAND_ERROR \<Rightarrow> - 3
      | TWOPENCE_FORWARD_INPUT_ERROR \<Rightarrow> - 4
      | TWOPENCE_RECEIVE_RESULTS_ERROR \<Rightarrow> - 5
      | TWOPENCE_COMMAND_TIMEOUT_ERROR \<Rightarrow> - 6
      | TWOPENCE_LOCAL_FILE_ERROR \<Rightarrow> - 7
      | TWOPENCE_SEND_FILE_ERROR \<Rightarrow> - 8
      | TWOPENCE_REMOTE_FILE_ERROR \<Rightarrow> - 9
      | TWOPENCE_RECEIVE_FILE_ERROR \<Rightarrow> - 10
      | TWOPENCE_INTERRUPT_COMMAND_ERROR \<Rightarrow> - 11
      | TWOPENCE_INVALID_TARGET_SPEC \<Rightarrow> - 12
      | TWOPENCE_UNKNOWN_PLUGIN \<Rightarrow> - 13
      | TWOPENCE_INCOMPATIBLE_PLUGIN \<Rightarrow> - 14
      | TWOPENCE_NOT_SUPPORTED \<Rightarrow> - 15)"

subsection \<open>The world outside the program\<close>

text \<open>
  Calls into libssh, the C library and the iostream module leave the program. The
  model keeps a record of the calls made (\<open>trace\<close>, oldest first) and takes the
  results of the calls from a script (\<open>answers\<close>, the next result first; an
  exhausted script answers 0). Every behaviour of the outside world over a finite
  run is some script. A call whose result the code ignores, or that returns nothing,
  takes no answer. An argument is a number, a string, or the result \<open>F f args\<close> of a
  function of the library that the program only passes on.
\<close>

datatype arg = I int | S string | F string "arg list"

datatype call = Call string "arg list"

record world =
  answers :: "int list"
  trace :: "call list"

definition next_answer :: "world \<Rightarrow> int" where
  "next_answer w = (case answers w of [] \<Rightarrow> 0 | a # as \<Rightarrow> a)"

definition advance :: "string \<Rightarrow> arg list \<Rightarrow> world \<Rightarrow> world" where
  "advance f args w = w\<lparr>answers := tl (answers w), trace := trace w @ [Call f args]\<rparr>"

definition ext :: "string \<Rightarrow> arg list \<Rightarrow> world \<Rightarrow> int \<times> world" where
  "ext f args w = (next_answer w, advance f args w)"

definition ext_void :: "string \<Rightarrow> arg list \<Rightarrow> world \<Rightarrow> world" where
  "ext_void f args w = w\<lparr>trace := trace w @ [Call f args]\<rparr>"

text \<open>
  What a call has stored through a pointer argument is the next answer of the script,
  taken without a call of its own.
\<close>

definition stored :: "world \<Rightarrow> int \<times> world" where
  "stored w = (next_answer w, w\<lparr>answers := tl (answers w)\<rparr>)"

subsection \<open>Machine integers\<close>

text \<open>
  The conversion of a wider integer to a 32-bit \<^verbatim>\<open>int\<close>, and to a 32-bit
  \<^verbatim>\<open>unsigned int\<close>.
\<close>

definition to_int32 :: "int \<Rightarrow> int" where
  "to_int32 x = (x + 2 ^ 31) mod 2 ^ 32 - 2 ^ 31"

definition to_uint32 :: "nat \<Rightarrow> nat" where
  "to_uint32 n = n mod 4294967296"

section \<open>twopence.c\<close>

subsection \<open>Error strings\<close>

definition twopence_strerror :: "code_values \<Rightarrow> int \<Rightarrow> string" where
  "twopence_strerror ec rc =
     (if rc = ec TWOPENCE_PARAMETER_ERROR then ''Invalid command parameter''
      else if rc = ec TWOPENCE_OPEN_SESSION_ERROR
        then ''Error opening the communication with the system under test''
      else if rc = ec TWOPENCE_SEND_COMMAND_ERROR
        then ''Error sending command to the system under test''
      else if rc = ec TWOPENCE_FORWARD_INPUT_ERROR then ''Error forwarding keyboard input''
      else if rc = ec TWOPENCE_RECEIVE_RESULTS_ERROR
        then ''Error receiving the results of action''
      else if rc = ec TWOPENCE_LOCAL_FILE_ERROR then ''Local error while transferring file''
      else if rc = ec TWOPENCE_SEND_FILE_ERROR
        then ''Error sending file to the system under test''
      else if rc = ec TWOPENCE_REMOTE_FILE_ERROR then ''Remote error while transferring file''
      else if rc = ec TWOPENCE_RECEIVE_FILE_ERROR
        then ''Error receiving file from the system under test''
      else if rc = ec TWOPENCE_INTERRUPT_COMMAND_ERROR then ''Failed to interrupt command''
      else if rc = ec TWOPENCE_INVALID_TARGET_SPEC then ''Invalid target spec''
      else if rc = ec TWOPENCE_UNKNOWN_PLUGIN then ''Unknown plugin''
      else if rc = ec TWOPENCE_INCOMPATIBLE_PLUGIN then ''Incompatible plugin''
      else ''Unknow error'')"

subsection \<open>Output sink\<close>

text \<open>
  \<^verbatim>\<open>twopence_output_t\<close> is an enumeration of the header; \<open>TWOPENCE_OUTPUT_OTHER\<close> stands
  for any other number, which \<^verbatim>\<open>twopence_sink_init\<close> handles in its default case.
  A buffer is a pair of addresses into the caller's memory.
\<close>

datatype twopence_output_t =
    TWOPENCE_OUTPUT_NONE
  | TWOPENCE_OUTPUT_SCREEN
  | TWOPENCE_OUTPUT_BUFFER
  | TWOPENCE_OUTPUT_BUFFER_SEPARATELY
  | TWOPENCE_OUTPUT_OTHER nat

record twopence_buffer =
  tail :: nat
  end_p :: nat

record twopence_sink =
  mode :: twopence_output_t
  outbuf :: twopence_buffer
  errbuf :: twopence_buffer

type_synonym memory = "nat \<Rightarrow> char"

definition uu_twopence_buffer_init :: "nat \<Rightarrow> nat \<Rightarrow> twopence_buffer" where
  "uu_twopence_buffer_init head sz = \<lparr>tail = head, end_p = head + sz\<rparr>"

definition zero_sink :: twopence_sink where
  "zero_sink = \<lparr>mode = TWOPENCE_OUTPUT_NONE,
                 outbuf = \<lparr>tail = 0, end_p = 0\<rparr>, errbuf = \<lparr>tail = 0, end_p = 0\<rparr>\<rparr>"

definition twopence_sink_init ::
  "twopence_output_t \<Rightarrow> nat \<Rightarrow> nat \<Rightarrow> nat \<Rightarrow> world \<Rightarrow> twopence_sink \<times> world" where
  "twopence_sink_init md outb errb bufsize w =
     (let sink = zero_sink\<lparr>mode := md\<rparr> in
      case md of
        TWOPENCE_OUTPUT_NONE \<Rightarrow> (sink, w)
      | TWOPENCE_OUTPUT_SCREEN \<Rightarrow> (sink, w)
      | TWOPENCE_OUTPUT_BUFFER \<Rightarrow>
          if outb \<noteq> 0 \<and> bufsize \<noteq> 0
          then (sink\<lparr>outbuf := uu_twopence_buffer_init outb bufsize\<rparr>, w)
          else (sink\<lparr>mode := TWOPENCE_OUTPUT_NONE\<rparr>,
                ext_void ''fprintf'' [S ''no buffer supplied for buffered output mode''] w)
      | TWOPENCE_OUTPUT_BUFFER_SEPARATELY \<Rightarrow>
          if outb \<noteq> 0 \<and> errb \<noteq> 0 \<and> bufsize \<noteq> 0
          then (sink\<lparr>outbuf := uu_twopence_buffer_init outb bufsize,
                     errbuf := uu_twopence_buffer_init errb bufsize\<rparr>, w)
          else (sink\<lparr>mode := TWOPENCE_OUTPUT_NONE\<rparr>,
                ext_void ''fprintf''
                  [S ''no buffers supplied for separately buffered output mode''] w)
      | TWOPENCE_OUTPUT_OTHER n \<Rightarrow>
          (sink\<lparr>mode := TWOPENCE_OUTPUT_NONE\<rparr>,
           ext_void ''fprintf'' [S ''unsupported output mode'', I (int n)] w))"

definition twopence_sink_init_none :: twopence_sink where
  "twopence_sink_init_none = zero_sink\<lparr>mode := TWOPENCE_OUTPUT_NONE\<rparr>"

definition uu_twopence_buffer_putc ::
  "twopence_buffer \<Rightarrow> char \<Rightarrow> memory \<Rightarrow> int \<times> twopence_buffer \<times> memory" where
  "uu_twopence_buffer_putc bp c m =
     (if tail bp \<ge> end_p bp then (0, bp, m)
      else (1, bp\<lparr>tail := tail bp + 1\<rparr>, m(tail bp := c)))"

text \<open>
  The state of a write is the sink, the memory that holds the caller's buffers and the
  world (for \<^verbatim>\<open>write(2)\<close> in screen mode).
\<close>

type_synonym sink_state = "twopence_sink \<times> memory \<times> world"

definition written_rc :: "int \<Rightarrow> int" where
  "written_rc written = (if written \<noteq> 1 then - 1 else 0)"

definition uu_twopence_sink_write_stdout :: "sink_state \<Rightarrow> char \<Rightarrow> int \<times> sink_state" where
  "uu_twopence_sink_write_stdout st c =
     (case st of (sink, m, w) \<Rightarrow>
        (case mode sink of
           TWOPENCE_OUTPUT_NONE \<Rightarrow> (0, st)
         | TWOPENCE_OUTPUT_SCREEN \<Rightarrow>
             (case ext ''write'' [I 1, S [c], I 1] w of
                (written, w') \<Rightarrow> (written_rc written, (sink, m, w')))
         | TWOPENCE_OUTPUT_BUFFER \<Rightarrow>
             (case uu_twopence_buffer_putc (outbuf sink) c m of
                (written, bp, m') \<Rightarrow> (written_rc written, (sink\<lparr>outbuf := bp\<rparr>, m', w)))
         | TWOPENCE_OUTPUT_BUFFER_SEPARATELY \<Rightarrow>
             (case uu_twopence_buffer_putc (outbuf sink) c m of
                (written, bp, m') \<Rightarrow> (written_rc written, (sink\<lparr>outbuf := bp\<rparr>, m', w)))
         | TWOPENCE_OUTPUT_OTHER n \<Rightarrow> (written_rc 0, st)))"

definition uu_twopence_sink_write_stderr :: "sink_state \<Rightarrow> char \<Rightarrow> int \<times> sink_state" where
  "uu_twopence_sink_write_stderr st c =
     (case st of (sink, m, w) \<Rightarrow>
        (case mode sink of
           TWOPENCE_OUTPUT_NONE \<Rightarrow> (0, st)
         | TWOPENCE_OUTPUT_SCREEN \<Rightarrow>
             (case ext ''write'' [I 2, S [c], I 1] w of
                (written, w') \<Rightarrow> (written_rc written, (sink, m, w')))
         | TWOPENCE_OUTPUT_BUFFER \<Rightarrow>
             (case uu_twopence_buffer_putc (outbuf sink) c m of
                (written, bp, m') \<Rightarrow> (written_rc written, (sink\<lparr>outbuf := bp\<rparr>, m', w)))
         | TWOPENCE_OUTPUT_BUFFER_SEPARATELY \<Rightarrow>
             (case uu_twopence_buffer_putc (errbuf sink) c m of
                (written, bp, m') \<Rightarrow> (written_rc written, (sink\<lparr>errbuf := bp\<rparr>, m', w)))
         | TWOPENCE_OUTPUT_OTHER n \<Rightarrow> (written_rc 0, st)))"

definition twopence_sink_putc :: "sink_state \<Rightarrow> bool \<Rightarrow> char \<Rightarrow> int \<times> sink_state" where
  "twopence_sink_putc st is_error c =
     (if is_error then uu_twopence_sink_write_stderr st c
      else uu_twopence_sink_write_stdout st c)"

text \<open>
  The two loops of \<^verbatim>\<open>twopence_sink_write\<close>: \<open>data\<close> is the \<^verbatim>\<open>len\<close> bytes at
  \<^verbatim>\<open>data\<close>, \<open>count\<close> the bytes written so far. \<open>count\<close> is an \<^verbatim>\<open>int\<close>; beyond
  2^31 - 1 bytes its increment is undefined in C and wraps here, as it does on the
  usual machines.
\<close>

fun sink_write_loop :: "bool \<Rightarrow> sink_state \<Rightarrow> string \<Rightarrow> int \<Rightarrow> int \<times> sink_state" where
  "sink_write_loop is_error st [] count = (count, st)"
| "sink_write_loop is_error st (c # data) count =
     (case (if is_error then uu_twopence_sink_write_stderr st c
            else uu_twopence_sink_write_stdout st c) of
        (rc, st') \<Rightarrow>
          if rc < 0 then (rc, st') else sink_write_loop is_error st' data (to_int32 (count + 1)))"

definition twopence_sink_write :: "sink_state \<Rightarrow> bool \<Rightarrow> string \<Rightarrow> int \<times> sink_state" where
  "twopence_sink_write st is_error data = sink_write_loop is_error st data 0"

subsection \<open>Plugin registry\<close>

datatype twopence_plugin_t =
    TWOPENCE_PLUGIN_UNKNOWN
  | TWOPENCE_PLUGIN_VIRTIO
  | TWOPENCE_PLUGIN_SSH
  | TWOPENCE_PLUGIN_SERIAL

definition twopence_plugin_type :: "string \<Rightarrow> twopence_plugin_t" where
  "twopence_plugin_type plugin_name =
     (if plugin_name = ''virtio'' then TWOPENCE_PLUGIN_VIRTIO
      else if plugin_name = ''ssh'' then TWOPENCE_PLUGIN_SSH
      else if plugin_name = ''serial'' then TWOPENCE_PLUGIN_SERIAL
      else TWOPENCE_PLUGIN_UNKNOWN)"

definition twopence_plugin_name_is_valid :: "string \<Rightarrow> bool" where
  "twopence_plugin_name_is_valid nm \<longleftrightarrow> twopence_plugin_type nm \<noteq> TWOPENCE_PLUGIN_UNKNOWN"

text \<open>\<^verbatim>\<open>strcspn(s, reject)\<close>: the length of the longest prefix of \<open>s\<close> free of \<open>reject\<close>.\<close>

definition strcspn :: "string \<Rightarrow> string \<Rightarrow> nat" where
  "strcspn s reject = length (takeWhile (\<lambda>c. c \<notin> set reject) s)"

text \<open>
  \<^verbatim>\<open>twopence_target_split\<close> is only called with the address of a variable; its
  argument here is the content of that variable, and its result is the returned plugin
  name with the new content of the variable. \<^verbatim>\<open>len\<close> is an \<^verbatim>\<open>unsigned int\<close>: it
  holds the result of \<^verbatim>\<open>strcspn\<close> modulo 2^32, and \<^verbatim>\<open>len++\<close> wraps. The name is
  cut at \<^verbatim>\<open>plugin[len]\<close>, which is the end of the string only if \<open>len\<close> is its
  length.
\<close>

definition twopence_target_split :: "string option \<Rightarrow> string option \<times> string option" where
  "twopence_target_split target_spec =
     (case target_spec of
        None \<Rightarrow> (None, None)
      | Some plugin \<Rightarrow>
          let len = to_uint32 (strcspn plugin '':'') in
          if len = 0 then (None, Some plugin)
          else
            let rest =
                  (if len < length plugin
                   then Some (if to_uint32 (len + 1) = 0 then take len plugin
                              else drop (to_uint32 (len + 1)) plugin)
                   else None);
                nm = take len plugin
            in if \<not> twopence_plugin_name_is_valid nm then (None, rest) else (Some nm, rest))"

text \<open>
  The function vector of a plugin, as far as the registry uses it, and the dynamic
  loader: \<open>dlopen\<close> gives a handle (0 when the library cannot be opened), \<open>dlsym\<close>
  the vector behind a symbol, if any. \<open>api_major\<close> is \<^verbatim>\<open>TWOPENCE_API_MAJOR_VERSION\<close> and
  \<open>beyond_plugin_max\<close> the test \<^verbatim>\<open>type >= __TWOPENCE_PLUGIN_MAX\<close>, both fixed by the
  header. \<open>strdup_ok\<close> tells whether \<^verbatim>\<open>strdup\<close> of a string succeeds.
\<close>

record 't loaded_plugin =
  init :: "(string option \<Rightarrow> 't option) option"

record 't loader =
  dlopen :: "string \<Rightarrow> int"
  dlsym :: "int \<Rightarrow> string \<Rightarrow> 't loaded_plugin option"
  api_major :: nat
  beyond_plugin_max :: "twopence_plugin_t \<Rightarrow> bool"
  strdup_ok :: "string \<Rightarrow> bool"

type_synonym dl_handles = "twopence_plugin_t \<Rightarrow> int"

function decimal :: "nat \<Rightarrow> string" where
  "decimal n =
     (if n < 10 then [char_of (48 + n)]
      else decimal (n div 10) @ [char_of (48 + n mod 10)])"
  by pat_completeness auto
termination
  by (relation "measure id") auto

definition twopence_load_library :: "'t loader \<Rightarrow> string \<Rightarrow> int" where
  "twopence_load_library env plugin =
     dlopen env (take 255 (''libtwopence_'' @ plugin @ ''.so.'' @ decimal (api_major env)))"

definition twopence_get_symbol :: "'t loader \<Rightarrow> int \<Rightarrow> string \<Rightarrow> 't loaded_plugin option" where
  "twopence_get_symbol env dl_handle sym_name = dlsym env dl_handle sym_name"

definition get_plugin_vector ::
  "code_values \<Rightarrow> 't loader \<Rightarrow> string \<Rightarrow> int \<Rightarrow> int \<times> 't loaded_plugin option" where
  "get_plugin_vector ec env nm dl_handle =
     (case twopence_get_symbol env dl_handle ''twopence_plugin'' of
        Some plugin \<Rightarrow> (0, Some plugin)
      | None \<Rightarrow>
          (case twopence_get_symbol env dl_handle (take 127 (''twopence_'' @ nm @ ''_ops'')) of
             Some plugin \<Rightarrow> (0, Some plugin)
           | None \<Rightarrow> (ec TWOPENCE_INCOMPATIBLE_PLUGIN, None)))"

text \<open>
  \<^verbatim>\<open>__twopence_get_plugin_ops\<close> with its static table \<^verbatim>\<open>plugin_dl_handles\<close> passed
  in and out. The second component is \<^verbatim>\<open>*ret\<close>, set on success only.
\<close>

definition uu_twopence_get_plugin_ops ::
  "code_values \<Rightarrow> 't loader \<Rightarrow> dl_handles \<Rightarrow> string
     \<Rightarrow> int \<times> 't loaded_plugin option \<times> dl_handles" where
  "uu_twopence_get_plugin_ops ec env plugin_dl_handles nm =
     (let type = twopence_plugin_type nm in
      if type = TWOPENCE_PLUGIN_UNKNOWN \<or> beyond_plugin_max env type
      then (ec TWOPENCE_UNKNOWN_PLUGIN, None, plugin_dl_handles)
      else if plugin_dl_handles type = 0
      then
        (let dl_handle = twopence_load_library env nm in
         if dl_handle = 0 then (ec TWOPENCE_UNKNOWN_PLUGIN, None, plugin_dl_handles)
         else
           (case get_plugin_vector ec env nm dl_handle of
              (rc, plugin) \<Rightarrow> (rc, plugin, plugin_dl_handles(type := dl_handle))))
      else
        (case get_plugin_vector ec env nm (plugin_dl_handles type) of
           (rc, plugin) \<Rightarrow> (rc, plugin, plugin_dl_handles)))"

text \<open>
  \<^verbatim>\<open>__twopence_target_new\<close>. The result is the return code, \<^verbatim>\<open>*ret\<close> and the table
  of loaded libraries. (A vector that is missing although the code is not negative
  cannot occur when the codes are negative; the model then returns the code.)
\<close>

definition uu_twopence_target_new ::
  "code_values \<Rightarrow> 't loader \<Rightarrow> dl_handles \<Rightarrow> string option \<Rightarrow> int \<times> 't option \<times> dl_handles" where
  "uu_twopence_target_new ec env plugin_dl_handles target_spec =
     (case twopence_target_split target_spec of
        (None, rest) \<Rightarrow> (ec TWOPENCE_INVALID_TARGET_SPEC, None, plugin_dl_handles)
      | (Some nm, rest) \<Rightarrow>
          (case uu_twopence_get_plugin_ops ec env plugin_dl_handles nm of
             (rc, plugin, handles) \<Rightarrow>
               if rc < 0 then (rc, None, handles)
               else
                 (case plugin of
                    None \<Rightarrow> (rc, None, handles)
                  | Some p \<Rightarrow>
                      (case init p of
                         None \<Rightarrow> (ec TWOPENCE_INCOMPATIBLE_PLUGIN, None, handles)
                       | Some f \<Rightarrow>
                           (case f rest of
                              None \<Rightarrow> (ec TWOPENCE_UNKNOWN_PLUGIN, None, handles)
                            | Some target \<Rightarrow> (0, Some target, handles))))))"

definition twopence_target_new ::
  "code_values \<Rightarrow> 't loader \<Rightarrow> dl_handles \<Rightarrow> string \<Rightarrow> int \<times> 't option \<times> dl_handles" where
  "twopence_target_new ec env plugin_dl_handles target_spec =
     uu_twopence_target_new ec env plugin_dl_handles
       (if strdup_ok env target_spec then Some target_spec else None)"

section \<open>ssh.c\<close>

subsection \<open>Constants of libssh, errno.h and signal.h\<close>

text \<open>
  The values are those of libssh and of Linux (x86). \<^verbatim>\<open>SIGIOT\<close> and \<^verbatim>\<open>SIGABRT\<close> are the
  same number there.
\<close>

definition SSH_OK :: int where "SSH_OK = 0"
definition SSH_ERROR :: int where "SSH_ERROR = - 1"
definition SSH_EOF :: int where "SSH_EOF = - 127"
definition SSH_AUTH_SUCCESS :: int where "SSH_AUTH_SUCCESS = 0"
definition SSH_SCP_WRITE :: int where "SSH_SCP_WRITE = 0"
definition SSH_SCP_READ :: int where "SSH_SCP_READ = 1"
definition SSH_SCP_RECURSIVE :: int where "SSH_SCP_RECURSIVE = 16"
definition SSH_SCP_REQUEST_NEWDIR :: int where "SSH_SCP_REQUEST_NEWDIR = 1"
definition SSH_SCP_REQUEST_NEWFILE :: int where "SSH_SCP_REQUEST_NEWFILE = 2"
definition SSH_SCP_REQUEST_EOF :: int where "SSH_SCP_REQUEST_EOF = 3"
definition EFAULT :: int where "EFAULT = 14"
definition BUFFER_SIZE :: int where "BUFFER_SIZE = 16384"
definition NSIG :: nat where "NSIG = 65"

definition SIGHUP :: nat where "SIGHUP = 1"
definition SIGINT :: nat where "SIGINT = 2"
definition SIGQUIT :: nat where "SIGQUIT = 3"
definition SIGILL :: nat where "SIGILL = 4"
definition SIGTRAP :: nat where "SIGTRAP = 5"
definition SIGABRT :: nat where "SIGABRT = 6"
definition SIGIOT :: nat where "SIGIOT = 6"
definition SIGBUS :: nat where "SIGBUS = 7"
definition SIGFPE :: nat where "SIGFPE = 8"
definition SIGKILL :: nat where "SIGKILL = 9"
definition SIGUSR1 :: nat where "SIGUSR1 = 10"
definition SIGSEGV :: nat where "SIGSEGV = 11"
definition SIGUSR2 :: nat where "SIGUSR2 = 12"
definition SIGPIPE :: nat where "SIGPIPE = 13"
definition SIGALRM :: nat where "SIGALRM = 14"
definition SIGTERM :: nat where "SIGTERM = 15"
definition SIGSTKFLT :: nat where "SIGSTKFLT = 16"
definition SIGCHLD :: nat where "SIGCHLD = 17"
definition SIGCONT :: nat where "SIGCONT = 18"
definition SIGSTOP :: nat where "SIGSTOP = 19"
definition SIGTSTP :: nat where "SIGTSTP = 20"
definition SIGTTIN :: nat where "SIGTTIN = 21"
definition SIGTTOU :: nat where "SIGTTOU = 22"
definition SIGURG :: nat where "SIGURG = 23"
definition SIGXCPU :: nat where "SIGXCPU = 24"
definition SIGXFSZ :: nat where "SIGXFSZ = 25"
definition SIGVTALRM :: nat where "SIGVTALRM = 26"
definition SIGPROF :: nat where "SIGPROF = 27"
definition SIGWINCH :: nat where "SIGWINCH = 28"
definition SIGIO :: nat where "SIGIO = 29"
definition SIGPWR :: nat where "SIGPWR = 30"
definition SIGSYS :: nat where "SIGSYS = 31"

lemmas signal_numbers =
  SIGHUP_def SIGINT_def SIGQUIT_def SIGILL_def SIGTRAP_def SIGABRT_def SIGIOT_def SIGBUS_def
  SIGFPE_def SIGKILL_def SIGUSR1_def SIGSEGV_def SIGUSR2_def SIGPIPE_def SIGALRM_def
  SIGTERM_def SIGSTKFLT_def SIGCHLD_def SIGCONT_def SIGSTOP_def SIGTSTP_def SIGTTIN_def
  SIGTTOU_def SIGURG_def SIGXCPU_def SIGXFSZ_def SIGVTALRM_def SIGPROF_def SIGWINCH_def
  SIGIO_def SIGPWR_def SIGSYS_def

subsection \<open>Transactions\<close>

text \<open>
  \<^verbatim>\<open>struct twopence_ssh_transaction\<close>. The nested structures are flattened
  (\<^verbatim>\<open>stdin.eof\<close> is \<open>stdin_eof\<close>). \<open>status_ret\<close> tells whether the pointer is set;
  the status it points to is the caller's and is passed to the functions that write
  it. The back pointer \<^verbatim>\<open>handle\<close> and the callback structure are left out: the
  target, where needed, is an argument.
\<close>

record twopence_status =
  major :: int
  minor :: int

record twopence_ssh_transaction =
  session :: int
  channel :: int
  exception :: int
  status_ret :: bool
  stdin_stream :: int
  stdin_pfd_fd :: int
  stdin_pfd_events :: int
  stdin_pfd_revents :: int
  stdin_eof :: bool
  stdin_was_blocking :: int
  stdout_index :: int
  stdout_stream :: int
  stdout_eof :: bool
  stderr_index :: int
  stderr_stream :: int
  stderr_eof :: bool
  command_timeout :: "int \<times> int"
  eof_sent :: bool
  use_tty :: bool
  interrupted :: bool
  exit_signal :: int

definition uu_twopence_ssh_transaction_send_eof ::
  "twopence_ssh_transaction \<Rightarrow> world \<Rightarrow> int \<times> twopence_ssh_transaction \<times> world" where
  "uu_twopence_ssh_transaction_send_eof tr w =
     (if channel tr = 0 \<or> eof_sent tr then (SSH_OK, tr, w)
      else
        let (rc1, w1) =
              (if use_tty tr
               then ext ''ssh_channel_write'' [I (channel tr), S [CHR 0x04], I 1] w
               else (SSH_OK, w));
            (rc2, w2) =
              (if rc1 = SSH_OK then ext ''ssh_channel_send_eof'' [I (channel tr)] w1
               else (rc1, w1))
        in (rc2, if rc2 = SSH_OK then tr\<lparr>eof_sent := True\<rparr> else tr, w2))"

definition uu_twopence_ssh_transaction_close_channel ::
  "twopence_ssh_transaction \<Rightarrow> world \<Rightarrow> twopence_ssh_transaction \<times> world" where
  "uu_twopence_ssh_transaction_close_channel tr w =
     (let (tr1, w1) =
            (if channel tr \<noteq> 0
             then (tr\<lparr>channel := 0\<rparr>,
                   ext_void ''ssh_channel_free'' [I (channel tr)]
                     (ext_void ''ssh_channel_close'' [I (channel tr)] w))
             else (tr, w))
      in if session tr1 \<noteq> 0
         then (tr1\<lparr>session := 0\<rparr>,
               ext_void ''ssh_free'' [I (session tr1)]
                 (ext_void ''ssh_disconnect'' [I (session tr1)] w1))
         else (tr1, w1))"

definition uu_twopence_ssh_transaction_fail ::
  "twopence_ssh_transaction \<Rightarrow> int \<Rightarrow> twopence_ssh_transaction" where
  "uu_twopence_ssh_transaction_fail tr error =
     (if exception tr = 0 then tr\<lparr>exception := error\<rparr> else tr)"

text \<open>
  The table \<^verbatim>\<open>signames\<close>: the designated initialisers in the order of the source; a
  later initialiser of an index replaces an earlier one.
\<close>

definition signames_init :: "(nat \<times> string) list" where
  "signames_init =
     [(SIGHUP, ''HUP''), (SIGINT, ''INT''), (SIGQUIT, ''QUIT''), (SIGILL, ''ILL''),
      (SIGTRAP, ''TRAP''), (SIGABRT, ''ABRT''), (SIGIOT, ''IOT''), (SIGBUS, ''BUS''),
      (SIGFPE, ''FPE''), (SIGKILL, ''KILL''), (SIGUSR1, ''USR1''), (SIGSEGV, ''SEGV''),
      (SIGUSR2, ''USR2''), (SIGPIPE, ''PIPE''), (SIGALRM, ''ALRM''), (SIGTERM, ''TERM''),
      (SIGSTKFLT, ''STKFLT''), (SIGCHLD, ''CHLD''), (SIGCONT, ''CONT''), (SIGSTOP, ''STOP''),
      (SIGTSTP, ''TSTP''), (SIGTTIN, ''TTIN''), (SIGTTOU, ''TTOU''), (SIGURG, ''URG''),
      (SIGXCPU, ''XCPU''), (SIGXFSZ, ''XFSZ''), (SIGVTALRM, ''VTALRM''), (SIGPROF, ''PROF''),
      (SIGWINCH, ''WINCH''), (SIGIO, ''IO''), (SIGPWR, ''PWR''), (SIGSYS, ''SYS'')]"

definition signames :: "string option list" where
  "signames = foldl (\<lambda>a (i, nm). a[i := Some nm]) (replicate NSIG None) signames_init"

text \<open>The loop of the callback over the rest of the table, from index \<open>signo\<close> on.\<close>

fun signame_loop :: "string option list \<Rightarrow> nat \<Rightarrow> string \<Rightarrow> int" where
  "signame_loop [] signo signal = - 1"
| "signame_loop (nm # names) signo signal =
     (if nm = Some signal then int signo else signame_loop names (signo + 1) signal)"

definition uu_twopence_ssh_exit_signal_callback ::
  "twopence_ssh_transaction \<Rightarrow> string \<Rightarrow> twopence_ssh_transaction" where
  "uu_twopence_ssh_exit_signal_callback tr signal =
     tr\<lparr>exit_signal := signame_loop signames 0 signal\<rparr>"

text \<open>
  libssh runs the callback, registered with the transaction as its user data, while
  it handles the messages of the channel, that is inside the calls the program makes
  on the channel. \<open>run_callbacks\<close> runs it for the signal names of the exit-signal
  messages that arrive during such a call, in their order.
\<close>

definition run_callbacks ::
  "twopence_ssh_transaction \<Rightarrow> string list \<Rightarrow> twopence_ssh_transaction" where
  "run_callbacks tr signals = foldl uu_twopence_ssh_exit_signal_callback tr signals"

text \<open>
  \<^verbatim>\<open>__twopence_ssh_transaction_get_exit_status\<close>. \<open>during_eof\<close> are the signal names
  that arrive while the end of input is sent (if it is sent), \<open>during_status\<close> those
  that arrive inside \<^verbatim>\<open>ssh_channel_get_exit_status\<close>.
\<close>

definition uu_twopence_ssh_transaction_get_exit_status ::
  "code_values \<Rightarrow> string list \<Rightarrow> string list \<Rightarrow> twopence_ssh_transaction \<Rightarrow> twopence_status
     \<Rightarrow> world \<Rightarrow> int \<times> twopence_ssh_transaction \<times> twopence_status \<times> world" where
  "uu_twopence_ssh_transaction_get_exit_status ec during_eof during_status tr status w =
     (if \<not> status_ret tr then (0, tr, status, w)
      else if channel tr = 0 then (0, tr, status, w)
      else
        let (rc, tr0, w1) = uu_twopence_ssh_transaction_send_eof tr w;
            tr1 = (if eof_sent tr then tr0 else run_callbacks tr0 during_eof)
        in
        if rc = SSH_ERROR
        then (- 1, uu_twopence_ssh_transaction_fail tr1 (ec TWOPENCE_RECEIVE_RESULTS_ERROR),
              status, w1)
        else
          let (es, w2) = ext ''ssh_channel_get_exit_status'' [I (channel tr1)] w1;
              tr2 = run_callbacks tr1 during_status;
              status1 = status\<lparr>minor := es\<rparr>;
              status2 =
                (if minor status1 = SSH_ERROR \<and> exit_signal tr2 \<noteq> 0
                 then status1\<lparr>major := EFAULT, minor := exit_signal tr2\<rparr>
                 else status1)
          in (0, tr2\<lparr>status_ret := False\<rparr>, status2, w2))"

definition uu_twopence_ssh_transaction_mark_stdin_eof ::
  "twopence_ssh_transaction \<Rightarrow> world \<Rightarrow> int \<times> twopence_ssh_transaction \<times> world" where
  "uu_twopence_ssh_transaction_mark_stdin_eof tr w =
     (let (rc, tr1, w1) = uu_twopence_ssh_transaction_send_eof (tr\<lparr>stdin_eof := True\<rparr>) w
      in if rc = SSH_ERROR then (- 1, tr1, w1)
         else (0, tr1\<lparr>stdin_pfd_fd := - 1\<rparr>, w1))"

subsection \<open>Targets\<close>

text \<open>
  \<^verbatim>\<open>struct twopence_ssh_target\<close> starts with the \<^verbatim>\<open>struct twopence_target\<close> of the
  header, of which the plugin type and the pointer to the function vector are kept.
  The only function vector of these sources is \<^verbatim>\<open>twopence_ssh_ops\<close>.
\<close>

datatype plugin_ref = Twopence_ssh_ops_ref

record twopence_target =
  plugin_type :: twopence_plugin_t
  ops :: plugin_ref

record twopence_ssh_target = twopence_target +
  template :: int
  foreground :: "twopence_ssh_transaction option"

definition uu_twopence_ssh_interrupt_ssh ::
  "code_values \<Rightarrow> twopence_ssh_target \<Rightarrow> world \<Rightarrow> int \<times> twopence_ssh_target \<times> world" where
  "uu_twopence_ssh_interrupt_ssh ec handle w =
     (case foreground handle of
        None \<Rightarrow> (ec TWOPENCE_OPEN_SESSION_ERROR, handle, w)
      | Some tr \<Rightarrow>
          if channel tr = 0 then (ec TWOPENCE_OPEN_SESSION_ERROR, handle, w)
          else if use_tty tr then
            (if eof_sent tr
             then (ec TWOPENCE_INTERRUPT_COMMAND_ERROR, handle,
                   ext_void ''printf''
                     [S ''Cannot send Ctrl-C, channel already closed for writing''] w)
             else
               let (n, w1) = ext ''ssh_channel_write'' [I (channel tr), S [CHR 0x03], I 1] w
               in if n \<noteq> 1 then (ec TWOPENCE_INTERRUPT_COMMAND_ERROR, handle, w1)
                  else (0, handle, w1))
          else
            (0, handle\<lparr>foreground := Some (tr\<lparr>interrupted := True\<rparr>)\<rparr>,
             ext_void ''printf'' [S ''Command not being run in tty, cannot interrupt it''] w))"

definition uu_twopence_ssh_init ::
  "string \<Rightarrow> nat \<Rightarrow> world \<Rightarrow> twopence_ssh_target option \<times> world" where
  "uu_twopence_ssh_init hostname port w =
     (let (handle, w1) = ext ''calloc'' [I 1, S ''struct twopence_ssh_target''] w in
      if handle = 0 then (None, w1)
      else
        let (tmpl, w2) = ext ''ssh_new'' [] w1 in
        if tmpl = 0 then (None, ext_void ''free'' [I handle] w2)
        else
          let (rc1, w3) = ext ''ssh_options_set'' [I tmpl, S ''SSH_OPTIONS_HOST'', S hostname] w2;
              (rc2, w4) =
                (if rc1 < 0 then (rc1, w3)
                 else ext ''ssh_options_set'' [I tmpl, S ''SSH_OPTIONS_PORT'', I (int port)] w3)
          in if rc1 < 0 \<or> rc2 < 0
             then (None, ext_void ''free'' [I handle] (ext_void ''ssh_free'' [I tmpl] w4))
             else (Some \<lparr>plugin_type = TWOPENCE_PLUGIN_SSH, ops = Twopence_ssh_ops_ref,
                          template = tmpl, foreground = None\<rparr>, w4))"

text \<open>
  \<^verbatim>\<open>strtoul(s, &s, 10)\<close> of the C library, for a 64-bit \<^verbatim>\<open>unsigned long\<close>: white space
  is skipped, a sign is accepted, the digits are read; without a digit the value is 0
  and the rest is the whole string. The result is the value and the unread rest.
\<close>

definition isspace :: "char \<Rightarrow> bool" where
  "isspace c \<longleftrightarrow> c \<in> {CHR '' '', CHR 0x09, CHR 0x0A, CHR 0x0B, CHR 0x0C, CHR 0x0D}"

definition isdigit :: "char \<Rightarrow> bool" where
  "isdigit c \<longleftrightarrow> 48 \<le> (of_char c :: nat) \<and> (of_char c :: nat) \<le> 57"

definition ULONG_MAX :: nat where
  "ULONG_MAX = 2 ^ 64 - 1"

definition digits_value :: "string \<Rightarrow> nat" where
  "digits_value ds = foldl (\<lambda>a c. 10 * a + (of_char c - 48)) 0 ds"

definition strtoul :: "string \<Rightarrow> nat \<times> string" where
  "strtoul s =
     (let s1 = dropWhile isspace s;
          (neg, s2) =
            (case s1 of
               [] \<Rightarrow> (False, s1)
             | c # cs \<Rightarrow>
                 if c = CHR ''-'' then (True, cs)
                 else if c = CHR ''+'' then (False, cs) else (False, s1));
          ds = takeWhile isdigit s2
      in if ds = [] then (0, s)
         else
           let v = digits_value ds in
           (if v > ULONG_MAX then ULONG_MAX
            else if neg then (2 ^ 64 - v) mod 2 ^ 64 else v,
            dropWhile isdigit s2))"

text \<open>\<^verbatim>\<open>strrchr(s, c)\<close> as the index of the last \<open>c\<close> in \<open>s\<close>, if any.\<close>

fun strrchr :: "string \<Rightarrow> char \<Rightarrow> nat option" where
  "strrchr [] c = None"
| "strrchr (x # xs) c =
     (case strrchr xs c of
        Some i \<Rightarrow> Some (i + 1)
      | None \<Rightarrow> if x = c then Some 0 else None)"

text \<open>\<^verbatim>\<open>twopence_ssh_init\<close>; \<^verbatim>\<open>strdup\<close> is taken to succeed.\<close>

definition twopence_ssh_init :: "string \<Rightarrow> world \<Rightarrow> twopence_ssh_target option \<times> world" where
  "twopence_ssh_init arg w =
     (case strrchr arg CHR '':'' of
        None \<Rightarrow> uu_twopence_ssh_init arg 22 w
      | Some i \<Rightarrow>
          let copy_spec = take i arg;
              (port, s) = strtoul (drop (i + 1) arg)
          in if s \<noteq> [] \<or> port \<ge> 65535 then (None, w)
             else
               let hostname =
                     (if copy_spec \<noteq> [] \<and> hd copy_spec = CHR ''[''
                      then (if last copy_spec = CHR '']'' then butlast (tl copy_spec)
                            else copy_spec)
                      else copy_spec)
               in uu_twopence_ssh_init hostname port w)"

definition twopence_ssh_interrupt_command ::
  "code_values \<Rightarrow> twopence_ssh_target \<Rightarrow> world \<Rightarrow> int \<times> twopence_ssh_target \<times> world" where
  "twopence_ssh_interrupt_command ec opaque_handle w =
     uu_twopence_ssh_interrupt_ssh ec opaque_handle w"

definition twopence_ssh_exit_remote ::
  "twopence_ssh_target \<Rightarrow> world \<Rightarrow> int \<times> twopence_ssh_target \<times> world" where
  "twopence_ssh_exit_remote opaque_handle w = (- 1, opaque_handle, w)"

subsection \<open>Sessions and file transfers\<close>

definition uu_twopence_ssh_output :: "char \<Rightarrow> world \<Rightarrow> int \<times> world" where
  "uu_twopence_ssh_output c w = ext ''twopence_target_putc'' [S ''TWOPENCE_STDOUT'', S [c]] w"

text \<open>
  \<^verbatim>\<open>__twopence_ssh_open_session\<close>, given the template of the target.
  \<^verbatim>\<open>ssh_options_copy\<close> is given the address of the variable \<^verbatim>\<open>session\<close>: what the
  variable holds after the call is what the call has stored there (the same session,
  if it stores nothing).
\<close>

definition uu_twopence_ssh_open_session :: "int \<Rightarrow> string option \<Rightarrow> world \<Rightarrow> int \<times> world" where
  "uu_twopence_ssh_open_session tmpl username w =
     (let uname = (case username of None \<Rightarrow> ''root'' | Some u \<Rightarrow> u);
          (sess1, w1) = ext ''ssh_new'' [] w
      in if sess1 = 0 then (0, w1)
         else
           let (rc2, w2a) = ext ''ssh_options_copy'' [I tmpl, I sess1] w1;
               (sess, w2) = stored w2a
           in
           if rc2 < 0 then (0, ext_void ''ssh_free'' [I sess] w2)
           else
             let (rc3, w3) = ext ''ssh_options_set'' [I sess, S ''SSH_OPTIONS_USER'', S uname] w2 in
             if rc3 < 0 then (0, ext_void ''ssh_free'' [I sess] w3)
             else
               let (rc4, w4) = ext ''ssh_connect'' [I sess] w3 in
               if rc4 \<noteq> SSH_OK then (0, ext_void ''ssh_free'' [I sess] w4)
               else
                 let (rc5, w5) = ext ''ssh_userauth_autopubkey'' [I sess] w4 in
                 if rc5 \<noteq> SSH_AUTH_SUCCESS
                 then (0, ext_void ''ssh_free'' [I sess] (ext_void ''ssh_disconnect'' [I sess] w5))
                 else (sess, w5))"

text \<open>
  \<^verbatim>\<open>struct twopence_scp_transaction\<close> (without the back pointer to the target) and the
  fields of \<^verbatim>\<open>twopence_file_xfer_t\<close> that the code reads.
\<close>

record twopence_scp_transaction =
  t_session :: int
  t_scp :: int
  local_stream :: int
  remaining :: int

record twopence_file_xfer =
  user :: "string option"
  remote_name :: string
  remote_mode :: int
  xfer_local_stream :: int

definition chunk_size :: "int \<Rightarrow> int" where
  "chunk_size rem = (if to_int32 rem > BUFFER_SIZE then BUFFER_SIZE else to_int32 rem)"

text \<open>
  The two copy loops. The chunk size is \<^verbatim>\<open>remaining\<close> converted to \<^verbatim>\<open>int\<close>, so for a
  file of 2 GiB or more it may be 0 or negative and the loop need not end: the
  functions are partial, with \<open>None\<close> for a loop that does not return.
\<close>

partial_function (option) uu_twopence_ssh_send_file ::
  "code_values \<Rightarrow> twopence_scp_transaction \<Rightarrow> twopence_status \<Rightarrow> world
     \<Rightarrow> (int \<times> twopence_scp_transaction \<times> twopence_status \<times> world) option" where
  "uu_twopence_ssh_send_file ec tr status w =
     (if remaining tr > 0 then
        (case ext ''twopence_iostream_read'' [I (local_stream tr), I (chunk_size (remaining tr))] w of
           (received, w1) \<Rightarrow>
             if received \<noteq> chunk_size (remaining tr)
             then Some (ec TWOPENCE_LOCAL_FILE_ERROR, tr, status,
                        snd (uu_twopence_ssh_output CHR 0x0A w1))
             else
               (case ext ''ssh_scp_write'' [I (t_scp tr), I (chunk_size (remaining tr))] w1 of
                  (rc, w2) \<Rightarrow>
                    if rc \<noteq> SSH_OK
                    then
                      (case ext ''ssh_get_error_code'' [I (t_session tr)] w2 of
                         (e, w3) \<Rightarrow>
                           Some (ec TWOPENCE_SEND_FILE_ERROR, tr, status\<lparr>major := e\<rparr>,
                                 snd (uu_twopence_ssh_output CHR 0x0A w3)))
                    else
                      uu_twopence_ssh_send_file ec
                        (tr\<lparr>remaining := remaining tr - chunk_size (remaining tr)\<rparr>) status
                        (snd (uu_twopence_ssh_output CHR ''.'' w2))))
      else Some (0, tr, status, snd (uu_twopence_ssh_output CHR 0x0A w)))"

partial_function (option) uu_twopence_ssh_receive_file ::
  "code_values \<Rightarrow> twopence_scp_transaction \<Rightarrow> twopence_status \<Rightarrow> world
     \<Rightarrow> (int \<times> twopence_scp_transaction \<times> twopence_status \<times> world) option" where
  "uu_twopence_ssh_receive_file ec tr status w =
     (if remaining tr > 0 then
        (case ext ''ssh_scp_read'' [I (t_scp tr), I (chunk_size (remaining tr))] w of
           (received, w1) \<Rightarrow>
             if received \<noteq> chunk_size (remaining tr)
             then
               (case ext ''ssh_get_error_code'' [I (t_session tr)] w1 of
                  (e, w2) \<Rightarrow>
                    Some (ec TWOPENCE_RECEIVE_FILE_ERROR, tr, status\<lparr>major := e\<rparr>,
                          snd (uu_twopence_ssh_output CHR 0x0A w2)))
             else
               (case ext ''twopence_iostream_write''
                       [I (local_stream tr), I (chunk_size (remaining tr))] w1 of
                  (written, w2) \<Rightarrow>
                    if written \<noteq> chunk_size (remaining tr)
                    then Some (ec TWOPENCE_LOCAL_FILE_ERROR, tr, status,
                               snd (uu_twopence_ssh_output CHR 0x0A w2))
                    else
                      uu_twopence_ssh_receive_file ec
                        (tr\<lparr>remaining := remaining tr - chunk_size (remaining tr)\<rparr>) status
                        (snd (uu_twopence_ssh_output CHR ''.'' w2))))
      else Some (0, tr, status, snd (uu_twopence_ssh_output CHR 0x0A w)))"

definition twopence_scp_transfer_init :: twopence_scp_transaction where
  "twopence_scp_transfer_init = \<lparr>t_session = 0, t_scp = 0, local_stream = 0, remaining = 0\<rparr>"

definition twopence_scp_transfer_destroy ::
  "twopence_scp_transaction \<Rightarrow> world \<Rightarrow> twopence_scp_transaction \<times> world" where
  "twopence_scp_transfer_destroy tr w =
     (let (tr1, w1) =
            (if t_scp tr \<noteq> 0
             then (tr\<lparr>t_scp := 0\<rparr>,
                   ext_void ''ssh_scp_free'' [I (t_scp tr)]
                     (ext_void ''ssh_scp_close'' [I (t_scp tr)] w))
             else (tr, w))
      in if t_session tr1 \<noteq> 0
         then (tr1\<lparr>t_session := 0\<rparr>,
               ext_void ''ssh_free'' [I (t_session tr1)]
                 (ext_void ''ssh_disconnect'' [I (t_session tr1)] w1))
         else (tr1, w1))"

definition twopence_scp_transfer_open_session ::
  "code_values \<Rightarrow> twopence_ssh_target \<Rightarrow> twopence_scp_transaction \<Rightarrow> string option \<Rightarrow> world
     \<Rightarrow> int \<times> twopence_scp_transaction \<times> world" where
  "twopence_scp_transfer_open_session ec handle tr username w =
     (let (sess, w1) = uu_twopence_ssh_open_session (template handle) username w
      in (if sess = 0 then ec TWOPENCE_OPEN_SESSION_ERROR else 0, tr\<lparr>t_session := sess\<rparr>, w1))"

definition twopence_scp_transfer_init_copy ::
  "code_values \<Rightarrow> twopence_scp_transaction \<Rightarrow> int \<Rightarrow> arg \<Rightarrow> world
     \<Rightarrow> int \<times> twopence_scp_transaction \<times> world" where
  "twopence_scp_transfer_init_copy ec tr direction remote w =
     (let (scp, w1) = ext ''ssh_scp_new'' [I (t_session tr), I direction, remote] w;
          tr1 = tr\<lparr>t_scp := scp\<rparr>
      in if scp = 0 then (ec TWOPENCE_OPEN_SESSION_ERROR, tr1, w1)
         else
           let (rc, w2) = ext ''ssh_scp_init'' [I scp] w1
           in (if rc \<noteq> SSH_OK then ec TWOPENCE_OPEN_SESSION_ERROR else 0, tr1, w2))"

definition uu_twopence_ssh_check_remote_dir :: "int \<Rightarrow> arg \<Rightarrow> world \<Rightarrow> bool \<times> world" where
  "uu_twopence_ssh_check_remote_dir sess remote_dirname w =
     (let (scp, w1) =
            ext ''ssh_scp_new'' [I sess, I (SSH_SCP_READ + SSH_SCP_RECURSIVE), remote_dirname] w
      in if scp = 0 then (False, w1)
         else
           let (rc, w2) = ext ''ssh_scp_init'' [I scp] w1;
               (req, w3) =
                 (if rc = SSH_OK then ext ''ssh_scp_pull_request'' [I scp] w2 else (0, w2))
           in (rc = SSH_OK \<and> req = SSH_SCP_REQUEST_NEWDIR,
               ext_void ''ssh_scp_free'' [I scp] (ext_void ''ssh_scp_close'' [I scp] w3)))"

text \<open>
  \<^verbatim>\<open>__twopence_ssh_inject_ssh\<close>. A failing \<^verbatim>\<open>assert\<close> ends the process: the call
  does not return.
\<close>

definition uu_twopence_ssh_inject_ssh ::
  "code_values \<Rightarrow> twopence_scp_transaction \<Rightarrow> twopence_file_xfer \<Rightarrow> arg \<Rightarrow> arg
     \<Rightarrow> twopence_status \<Rightarrow> world
     \<Rightarrow> (int \<times> twopence_scp_transaction \<times> twopence_status \<times> world) option" where
  "uu_twopence_ssh_inject_ssh ec tr xfer remote_dirname remote_basename status w =
     (let (filesize, w1) = ext ''twopence_iostream_filesize'' [I (xfer_local_stream xfer)] w in
      if \<not> filesize \<ge> 0 then None
      else
        let (dir_exists, w2) = uu_twopence_ssh_check_remote_dir (t_session tr) remote_dirname w1 in
        if \<not> dir_exists then Some (ec TWOPENCE_SEND_FILE_ERROR, tr, status, w2)
        else
          let (rc, tr1, w3) = twopence_scp_transfer_init_copy ec tr SSH_SCP_WRITE remote_dirname w2 in
          if rc < 0 then Some (rc, tr1, status, w3)
          else
            let (rc4, w4) =
                  ext ''ssh_scp_push_file''
                    [I (t_scp tr1), remote_basename, I filesize, I (remote_mode xfer)] w3
            in if rc4 \<noteq> SSH_OK
               then
                 (let (e, w5) = ext ''ssh_get_error_code'' [I (t_session tr1)] w4
                  in Some (ec TWOPENCE_SEND_FILE_ERROR, tr1, status\<lparr>major := e\<rparr>, w5))
               else
                 uu_twopence_ssh_send_file ec
                   (tr1\<lparr>local_stream := xfer_local_stream xfer, remaining := filesize\<rparr>)
                   status w4)"

text \<open>The label \<^verbatim>\<open>receive_file_error\<close> of \<^verbatim>\<open>__twopence_ssh_extract_ssh\<close>.\<close>

definition receive_file_error ::
  "code_values \<Rightarrow> twopence_scp_transaction \<Rightarrow> twopence_status \<Rightarrow> world
     \<Rightarrow> (int \<times> twopence_scp_transaction \<times> twopence_status \<times> world) option" where
  "receive_file_error ec tr status w =
     (let (e, w1) = ext ''ssh_get_error_code'' [I (t_session tr)] w
      in Some (ec TWOPENCE_RECEIVE_FILE_ERROR, tr, status\<lparr>major := e\<rparr>, w1))"

definition uu_twopence_ssh_extract_ssh ::
  "code_values \<Rightarrow> twopence_scp_transaction \<Rightarrow> twopence_file_xfer \<Rightarrow> twopence_status \<Rightarrow> world
     \<Rightarrow> (int \<times> twopence_scp_transaction \<times> twopence_status \<times> world) option" where
  "uu_twopence_ssh_extract_ssh ec tr xfer status w =
     (let (rc, tr1, w1) =
            twopence_scp_transfer_init_copy ec tr SSH_SCP_READ (S (remote_name xfer)) w
      in if rc < 0 then Some (rc, tr1, status, w1)
         else
           let (req, w2) = ext ''ssh_scp_pull_request'' [I (t_scp tr1)] w1 in
           if req \<noteq> SSH_SCP_REQUEST_NEWFILE then receive_file_error ec tr1 status w2
           else
             let (sz, w3) = ext ''ssh_scp_request_get_size'' [I (t_scp tr1)] w2 in
             if to_int32 sz = 0 then Some (0, tr1, status, w3)
             else
               let (rc4, w4) = ext ''ssh_scp_accept_request'' [I (t_scp tr1)] w3 in
               if rc4 \<noteq> SSH_OK then receive_file_error ec tr1 status w4
               else
                 (case uu_twopence_ssh_receive_file ec
                         (tr1\<lparr>local_stream := xfer_local_stream xfer, remaining := to_int32 sz\<rparr>)
                         status w4 of
                    None \<Rightarrow> None
                  | Some (rc5, tr5, status5, w5) \<Rightarrow>
                      if rc5 < 0 then Some (rc5, tr5, status5, w5)
                      else
                        let (req6, w6) = ext ''ssh_scp_pull_request'' [I (t_scp tr5)] w5 in
                        if req6 \<noteq> SSH_SCP_REQUEST_EOF then receive_file_error ec tr5 status5 w6
                        else Some (0, tr5, status5, w6)))"

definition remote_status_rc :: "code_values \<Rightarrow> int \<Rightarrow> twopence_status \<Rightarrow> int" where
  "remote_status_rc ec rc status =
     (if rc = 0 \<and> (major status \<noteq> 0 \<or> minor status \<noteq> 0) then ec TWOPENCE_REMOTE_FILE_ERROR
      else rc)"

text \<open>
  \<^verbatim>\<open>twopence_ssh_inject_file\<close> and \<^verbatim>\<open>twopence_ssh_extract_file\<close>. The transfer state
  \<^verbatim>\<open>state\<close> is a local variable of the C functions; the model returns it with the
  return code and the status, to show in what condition the function leaves it.
\<close>

definition twopence_ssh_inject_file ::
  "code_values \<Rightarrow> twopence_ssh_target \<Rightarrow> twopence_file_xfer \<Rightarrow> twopence_status \<Rightarrow> world
     \<Rightarrow> (int \<times> twopence_scp_transaction \<times> twopence_status \<times> world) option" where
  "twopence_ssh_inject_file ec handle xfer status w =
     (let (rc, state, w1) =
            twopence_scp_transfer_open_session ec handle twopence_scp_transfer_init (user xfer) w
      in if rc < 0 then Some (rc, state, status, w1)
         else
           let dirname = F ''ssh_dirname'' [S (remote_name xfer)];
               basename = F ''ssh_basename'' [S (remote_name xfer)];
               (filesize, w2) = ext ''twopence_iostream_filesize'' [I (xfer_local_stream xfer)] w1;
               res =
                 (if filesize < 0 then
                    (let (bp, w3) = ext ''twopence_iostream_read_all'' [I (xfer_local_stream xfer)] w2
                     in if bp = 0 then Inl (ec TWOPENCE_LOCAL_FILE_ERROR, state, status, w3)
                        else
                          let (stream, w4) = ext ''twopence_iostream_wrap_buffer'' [I bp, I 0] w3
                          in Inr (map_option
                                    (\<lambda>(rc5, tr5, status5, w5).
                                       (rc5, tr5, status5, ext_void ''twopence_iostream_free'' [I stream] w5))
                                    (uu_twopence_ssh_inject_ssh ec state
                                       (xfer\<lparr>xfer_local_stream := stream\<rparr>) dirname basename status w4)))
                  else Inr (uu_twopence_ssh_inject_ssh ec state xfer dirname basename status w2))
           in case res of
                Inl early \<Rightarrow> Some early
              | Inr None \<Rightarrow> None
              | Inr (Some (rc6, tr6, status6, w6)) \<Rightarrow>
                  let (tr7, w7) = twopence_scp_transfer_destroy tr6 w6
                  in Some (remote_status_rc ec rc6 status6, tr7, status6,
                           ext_void ''free'' [dirname] (ext_void ''free'' [basename] w7)))"

definition twopence_ssh_extract_file ::
  "code_values \<Rightarrow> twopence_ssh_target \<Rightarrow> twopence_file_xfer \<Rightarrow> twopence_status \<Rightarrow> world
     \<Rightarrow> (int \<times> twopence_scp_transaction \<times> twopence_status \<times> world) option" where
  "twopence_ssh_extract_file ec handle xfer status w =
     (let (rc, state, w1) =
            twopence_scp_transfer_open_session ec handle twopence_scp_transfer_init (user xfer) w
      in if rc < 0 then Some (rc, state, status, w1)
         else
           (case uu_twopence_ssh_extract_ssh ec state xfer status w1 of
              None \<Rightarrow> None
            | Some (rc2, tr2, status2, w2) \<Rightarrow>
                Some (remote_status_rc ec rc2 status2, tr2, status2, w2)))"

subsection \<open>The function vector and the generic operations\<close>

text \<open>
  \<^verbatim>\<open>twopence_ssh_ops\<close> with the entries modelled here that act on an existing target.
  (\<^verbatim>\<open>init\<close>, \<^verbatim>\<open>run_test\<close> and \<^verbatim>\<open>end\<close> are the other entries set in the source; an
  absent entry is \<open>None\<close>.)
\<close>

record twopence_plugin =
  name :: string
  inject_file ::
    "(twopence_ssh_target \<Rightarrow> twopence_file_xfer \<Rightarrow> twopence_status \<Rightarrow> world
        \<Rightarrow> (int \<times> twopence_scp_transaction \<times> twopence_status \<times> world) option) option"
  extract_file ::
    "(twopence_ssh_target \<Rightarrow> twopence_file_xfer \<Rightarrow> twopence_status \<Rightarrow> world
        \<Rightarrow> (int \<times> twopence_scp_transaction \<times> twopence_status \<times> world) option) option"
  exit_remote :: "(twopence_ssh_target \<Rightarrow> world \<Rightarrow> int \<times> twopence_ssh_target \<times> world) option"
  interrupt_command ::
    "(twopence_ssh_target \<Rightarrow> world \<Rightarrow> int \<times> twopence_ssh_target \<times> world) option"

definition twopence_ssh_ops :: "code_values \<Rightarrow> twopence_plugin" where
  "twopence_ssh_ops ec =
     \<lparr>name = ''ssh'',
      inject_file = Some (twopence_ssh_inject_file ec),
      extract_file = Some (twopence_ssh_extract_file ec),
      exit_remote = Some twopence_ssh_exit_remote,
      interrupt_command = Some (twopence_ssh_interrupt_command ec)\<rparr>"

definition plugin_at :: "code_values \<Rightarrow> plugin_ref \<Rightarrow> twopence_plugin" where
  "plugin_at ec r = (case r of Twopence_ssh_ops_ref \<Rightarrow> twopence_ssh_ops ec)"

definition twopence_exit_remote ::
  "code_values \<Rightarrow> twopence_ssh_target \<Rightarrow> world \<Rightarrow> int \<times> twopence_ssh_target \<times> world" where
  "twopence_exit_remote ec target w =
     (case exit_remote (plugin_at ec (ops target)) of
        None \<Rightarrow> (ec TWOPENCE_NOT_SUPPORTED, target, w)
      | Some f \<Rightarrow> f target w)"

definition twopence_interrupt_command ::
  "code_values \<Rightarrow> twopence_ssh_target \<Rightarrow> world \<Rightarrow> int \<times> twopence_ssh_target \<times> world" where
  "twopence_interrupt_command ec target w =
     (case interrupt_command (plugin_at ec (ops target)) of
        None \<Rightarrow> (ec TWOPENCE_NOT_SUPPORTED, target, w)
      | Some f \<Rightarrow> f target w)"

subsection \<open>Sequences of calls\<close>

text \<open>A sequence of failure recordings on one transaction, in the order they are made.\<close>

definition record_failures :: "twopence_ssh_transaction \<Rightarrow> int list \<Rightarrow> twopence_ssh_transaction" where
  "record_failures tr errors = foldl uu_twopence_ssh_transaction_fail tr errors"

text \<open>The routine that sends the end of input, invoked \<open>n\<close> times in a row.\<close>

primrec send_eof_times ::
  "nat \<Rightarrow> twopence_ssh_transaction \<Rightarrow> world \<Rightarrow> twopence_ssh_transaction \<times> world" where
  "send_eof_times 0 tr w = (tr, w)"
| "send_eof_times (Suc n) tr w =
     (case uu_twopence_ssh_transaction_send_eof tr w of (rc, tr1, w1) \<Rightarrow> send_eof_times n tr1 w1)"

text \<open>A sequence of byte writes to a sink, each to stdout or (flag set) to stderr.\<close>

definition sink_writes :: "sink_state \<Rightarrow> (bool \<times> char) list \<Rightarrow> sink_state" where
  "sink_writes st ws = foldl (\<lambda>s (is_error, c). snd (twopence_sink_putc s is_error c)) st ws"

text \<open>
  What holds of a sink in mode \<open>md\<close> with buffers at \<open>outb\<close> and \<open>errb\<close> of \<open>n\<close> bytes
  while it is written to: the cursors stay between the start and the bound of their
  buffers, and the memory outside the buffers is the memory \<open>m0\<close> of the start.
\<close>

definition sink_inv ::
  "twopence_output_t \<Rightarrow> nat \<Rightarrow> nat \<Rightarrow> nat \<Rightarrow> memory \<Rightarrow> sink_state \<Rightarrow> bool" where
  "sink_inv md outb errb n m0 st =
     (case st of (sink, m, w) \<Rightarrow>
        mode sink = md
        \<and> end_p (outbuf sink) = outb + n
        \<and> outb \<le> tail (outbuf sink) \<and> tail (outbuf sink) \<le> outb + n
        \<and> (md = TWOPENCE_OUTPUT_BUFFER_SEPARATELY \<longrightarrow>
             end_p (errbuf sink) = errb + n
             \<and> errb \<le> tail (errbuf sink) \<and> tail (errbuf sink) \<le> errb + n)
        \<and> (\<forall>a. (a < outb \<or> outb + n \<le> a)
                \<and> (md = TWOPENCE_OUTPUT_BUFFER_SEPARATELY \<longrightarrow> a < errb \<or> errb + n \<le> a)
              \<longrightarrow> m a = m0 a))"

text \<open>
  The calls that release a copy handle or a session, and the property of a world \<open>w\<close>
  that its trace is \<open>t\<close> followed by calls that release nothing.
\<close>

definition teardown_call :: "call \<Rightarrow> bool" where
  "teardown_call c =
     (case c of Call f args \<Rightarrow>
        f \<in> set [''ssh_scp_close'', ''ssh_scp_free'', ''ssh_disconnect'', ''ssh_free''])"

definition no_teardown_since :: "call list \<Rightarrow> world \<Rightarrow> bool" where
  "no_teardown_since t w \<longleftrightarrow>
     take (length t) (trace w) = t
     \<and> list_all (\<lambda>c. \<not> teardown_call c) (drop (length t) (trace w))"

subsection \<open>Concrete inputs\<close>

text \<open>
  A world that has seen no call and answers 0 throughout; the table of loaded
  libraries and the memory at the start; a loader that finds no library; the
  transaction as \<^verbatim>\<open>calloc\<close> leaves it.
\<close>

definition quiet_world :: world where
  "quiet_world = \<lparr>answers = [], trace = []\<rparr>"

definition no_handles :: dl_handles where
  "no_handles = (\<lambda>type. 0)"

definition blank_memory :: memory where
  "blank_memory = (\<lambda>a. CHR 0x00)"

text \<open>
  A sink in buffer mode over the two bytes at address 100, after the writes of
  \<open>a\<close> to stdout and \<open>b\<close> to stderr: the cursor is at the bound.
\<close>

definition full_sink :: sink_state where
  "full_sink =
     sink_writes
       (fst (twopence_sink_init TWOPENCE_OUTPUT_BUFFER 100 0 2 quiet_world), blank_memory,
        snd (twopence_sink_init TWOPENCE_OUTPUT_BUFFER 100 0 2 quiet_world))
       [(False, CHR ''a''), (True, CHR ''b'')]"

text \<open>
  A sink for separate buffers of two bytes at 100 and at 200, after writing \<open>a\<close> to
  stdout and \<open>b\<close>, \<open>c\<close> to stderr: the cursor of stderr is at its bound.
\<close>

definition full_sink_separately :: sink_state where
  "full_sink_separately =
     sink_writes
       (fst (twopence_sink_init TWOPENCE_OUTPUT_BUFFER_SEPARATELY 100 200 2 quiet_world),
        blank_memory,
        snd (twopence_sink_init TWOPENCE_OUTPUT_BUFFER_SEPARATELY 100 200 2 quiet_world))
       [(False, CHR ''a''), (True, CHR ''b''), (True, CHR ''c'')]"

definition null_loader :: "unit loader" where
  "null_loader =
     \<lparr>dlopen = (\<lambda>libname. 0), dlsym = (\<lambda>dl_handle sym. None), api_major = 0,
      beyond_plugin_max = (\<lambda>type. False), strdup_ok = (\<lambda>s. True)\<rparr>"

definition calloc_transaction :: twopence_ssh_transaction where
  "calloc_transaction =
     \<lparr>session = 0, channel = 0, exception = 0, status_ret = False,
      stdin_stream = 0, stdin_pfd_fd = 0, stdin_pfd_events = 0, stdin_pfd_revents = 0,
      stdin_eof = False, stdin_was_blocking = 0,
      stdout_index = 0, stdout_stream = 0, stdout_eof = False,
      stderr_index = 0, stderr_stream = 0, stderr_eof = False,
      command_timeout = (0, 0), eof_sent = False, use_tty = False, interrupted = False,
      exit_signal = 0\<rparr>"

text \<open>An SSH target whose foreground command runs on channel 7, not under a tty.\<close>

definition non_tty_target :: twopence_ssh_target where
  "non_tty_target =
     \<lparr>plugin_type = TWOPENCE_PLUGIN_SSH, ops = Twopence_ssh_ops_ref, template = 3,
      foreground = Some (calloc_transaction\<lparr>session := 5, channel := 7\<rparr>)\<rparr>"

text \<open>
  A transaction that awaits its exit status, in a world where the end of input is
  sent and the exit status then reads as \<^verbatim>\<open>SSH_ERROR\<close>.
\<close>

definition awaiting_transaction :: twopence_ssh_transaction where
  "awaiting_transaction = calloc_transaction\<lparr>session := 5, channel := 7, status_ret := True\<rparr>"

definition signalled_world :: world where
  "signalled_world = \<lparr>answers = [0, - 1], trace = []\<rparr>"

text \<open>
  A transaction under a tty, in a world where each of the next two writes to the
  channel writes its one byte.
\<close>

definition tty_transaction :: twopence_ssh_transaction where
  "tty_transaction = calloc_transaction\<lparr>session := 5, channel := 7, use_tty := True\<rparr>"

definition writing_world :: world where
  "writing_world = \<lparr>answers = [1, 1], trace = []\<rparr>"

text \<open>
  A world in which the allocation of the target, the session template and the two
  settings of its options succeed.
\<close>

definition init_world :: world where
  "init_world = \<lparr>answers = [1, 2, 0, 0], trace = []\<rparr>"

text \<open>
  A request to extract a file, in a world where the session opens (as session 5,
  which the copy of the options leaves in place), the copy is set up (as handle 6) and
  the remote side announces a file of size 0.
\<close>

definition hosts_xfer :: twopence_file_xfer where
  "hosts_xfer = \<lparr>user = None, remote_name = ''/etc/hosts'', remote_mode = 0, xfer_local_stream = 9\<rparr>"

definition extract_world :: world where
  "extract_world = \<lparr>answers = [5, 0, 5, 0, 0, 0, 6, 0, 2, 0], trace = []\<rparr>"

section \<open>Properties\<close>

subsection \<open>Result codes\<close>

lemma codes_ok_sample: "codes_ok sample_codes"
  by (simp add: codes_ok_def all_codes_def sample_codes_def)

lemma all_codes_UNIV: "set all_codes = UNIV"
proof -
  have "c \<in> set all_codes" for c
    by (cases c) (simp_all add: all_codes_def)
  then show ?thesis by auto
qed

lemma codes_ok_inj: "codes_ok ec \<Longrightarrow> inj ec"
  using distinct_map [of ec all_codes] by (simp add: codes_ok_def all_codes_UNIV)

lemma codes_ok_eq: "codes_ok ec \<Longrightarrow> ec a = ec b \<longleftrightarrow> a = b"
  by (auto dest: codes_ok_inj injD)

lemma codes_ok_neg: "codes_ok ec \<Longrightarrow> ec c < 0"
  using all_codes_UNIV by (auto simp: codes_ok_def list_all_iff)

text \<open>
  The thirteen codes that the switch of \<open>twopence_strerror\<close> lists have their own
  strings, and a number that is no code has the string of an unknown code.
\<close>

lemma strerror_listed_codes:
  assumes "codes_ok ec"
  shows "twopence_strerror ec (ec TWOPENCE_PARAMETER_ERROR) = ''Invalid command parameter''"
    and "twopence_strerror ec (ec TWOPENCE_OPEN_SESSION_ERROR)
           = ''Error opening the communication with the system under test''"
    and "twopence_strerror ec (ec TWOPENCE_SEND_COMMAND_ERROR)
           = ''Error sending command to the system under test''"
    and "twopence_strerror ec (ec TWOPENCE_FORWARD_INPUT_ERROR) = ''Error forwarding keyboard input''"
    and "twopence_strerror ec (ec TWOPENCE_RECEIVE_RESULTS_ERROR)
           = ''Error receiving the results of action''"
    and "twopence_strerror ec (ec TWOPENCE_LOCAL_FILE_ERROR) = ''Local error while transferring file''"
    and "twopence_strerror ec (ec TWOPENCE_SEND_FILE_ERROR)
           = ''Error sending file to the system under test''"
    and "twopence_strerror ec (ec TWOPENCE_REMOTE_FILE_ERROR) = ''Remote error while transferring file''"
    and "twopence_strerror ec (ec TWOPENCE_RECEIVE_FILE_ERROR)
           = ''Error receiving file from the system under test''"
    and "twopence_strerror ec (ec TWOPENCE_INTERRUPT_COMMAND_ERROR) = ''Failed to interrupt command''"
    and "twopence_strerror ec (ec TWOPENCE_INVALID_TARGET_SPEC) = ''Invalid target spec''"
    and "twopence_strerror ec (ec TWOPENCE_UNKNOWN_PLUGIN) = ''Unknown plugin''"
    and "twopence_strerror ec (ec TWOPENCE_INCOMPATIBLE_PLUGIN) = ''Incompatible plugin''"
  using assms by (simp_all add: twopence_strerror_def codes_ok_eq)

lemma strerror_no_code: "rc \<notin> range ec \<Longrightarrow> twopence_strerror ec rc = ''Unknow error''"
  by (auto simp: twopence_strerror_def)

text \<open>
  C9. The claim is that every code of the taxonomy, the not-supported code and the
  command-timeout code included, has its own description in \<open>twopence_strerror\<close>. The
  switch has no case for these two codes: under every admissible numbering both get
  the string of an unknown code.
\<close>

theorem strerror_misses_codes:
  "codes_ok ec \<Longrightarrow>
     twopence_strerror ec (ec TWOPENCE_COMMAND_TIMEOUT_ERROR) = ''Unknow error''
     \<and> twopence_strerror ec (ec TWOPENCE_NOT_SUPPORTED) = ''Unknow error''"
  by (simp add: twopence_strerror_def codes_ok_eq)

theorem strerror_misses_codes_witness:
  "codes_ok sample_codes
   \<and> twopence_strerror sample_codes (- 6) = ''Unknow error''
   \<and> twopence_strerror sample_codes (- 15) = ''Unknow error''"
  using strerror_misses_codes [OF codes_ok_sample] codes_ok_sample
  by (simp add: sample_codes_def)

subsection \<open>The exception of a transaction\<close>

lemma fail_keeps:
  "exception tr \<noteq> 0 \<Longrightarrow> exception (foldl uu_twopence_ssh_transaction_fail tr es) = exception tr"
  by (induction es arbitrary: tr) (simp_all add: uu_twopence_ssh_transaction_fail_def)

text \<open>
  C8. The exception of a transaction is set if absent: after any sequence of failure
  recordings it is the exception that was there before, if there was one, and
  otherwise the first nonzero code of the sequence (0 if there is none). A later
  recording never replaces it.
\<close>

theorem exception_first_wins:
  "exception (record_failures tr errors) =
     (if exception tr \<noteq> 0 then exception tr
      else case find (\<lambda>e. e \<noteq> 0) errors of None \<Rightarrow> 0 | Some e \<Rightarrow> e)"
  unfolding record_failures_def
proof (induction errors arbitrary: tr)
  case Nil
  then show ?case by simp
next
  case (Cons e es)
  show ?case
  proof (cases "exception tr \<noteq> 0")
    case True
    then show ?thesis using fail_keeps [of tr "e # es"] by simp
  next
    case False
    then show ?thesis using Cons [of "uu_twopence_ssh_transaction_fail tr e"]
      by (simp add: uu_twopence_ssh_transaction_fail_def)
  qed
qed

subsection \<open>Generic operations on an SSH target\<close>

text \<open>
  C10. On every SSH target \<open>twopence_exit_remote\<close> returns -1 and leaves the target
  (and the world) as they were. The value comes from the entry of the function vector,
  which is present, not from the branch for an absent entry; it is not the
  not-supported code, unless the header gave that code the number -1.
\<close>

theorem ssh_exit_remote_minus_one:
  "twopence_exit_remote ec target w = (- 1, target, w)
   \<and> exit_remote (plugin_at ec (ops target)) = Some twopence_ssh_exit_remote
   \<and> (ec TWOPENCE_NOT_SUPPORTED \<noteq> - 1 \<longrightarrow>
        fst (twopence_exit_remote ec target w) \<noteq> ec TWOPENCE_NOT_SUPPORTED)"
  by (cases "ops target")
     (simp add: twopence_exit_remote_def plugin_at_def twopence_ssh_ops_def
        twopence_ssh_exit_remote_def)

theorem ssh_exit_remote_minus_one_witness:
  "twopence_exit_remote sample_codes non_tty_target quiet_world = (- 1, non_tty_target, quiet_world)
   \<and> sample_codes TWOPENCE_NOT_SUPPORTED \<noteq> - 1
   \<and> fst (twopence_exit_remote sample_codes non_tty_target quiet_world)
       \<noteq> sample_codes TWOPENCE_NOT_SUPPORTED"
  using ssh_exit_remote_minus_one [of sample_codes non_tty_target quiet_world]
  by (simp add: sample_codes_def)

subsection \<open>Interrupting a command\<close>

text \<open>
  C1. The claim is that interrupting a foreground command that has a channel and does
  not run under a tty sets the flag \<open>interrupted\<close> and returns the interrupt error
  code. The flag is set, and a message says that the command cannot be interrupted,
  but the function returns 0.
\<close>

theorem interrupt_non_tty_returns_zero:
  "foreground handle = Some tr \<Longrightarrow> channel tr \<noteq> 0 \<Longrightarrow> \<not> use_tty tr \<Longrightarrow>
     twopence_interrupt_command ec handle w =
       (0, handle\<lparr>foreground := Some (tr\<lparr>interrupted := True\<rparr>)\<rparr>,
        ext_void ''printf'' [S ''Command not being run in tty, cannot interrupt it''] w)"
  by (simp add: twopence_interrupt_command_def plugin_at_def twopence_ssh_ops_def
      twopence_ssh_interrupt_command_def uu_twopence_ssh_interrupt_ssh_def split: plugin_ref.split)

theorem interrupt_non_tty_returns_zero_witness:
  "fst (twopence_interrupt_command sample_codes non_tty_target quiet_world) = 0
   \<and> fst (twopence_interrupt_command sample_codes non_tty_target quiet_world)
       \<noteq> sample_codes TWOPENCE_INTERRUPT_COMMAND_ERROR
   \<and> map_option interrupted
       (foreground (fst (snd (twopence_interrupt_command sample_codes non_tty_target quiet_world))))
       = Some True"
  using interrupt_non_tty_returns_zero
    [of non_tty_target "calloc_transaction\<lparr>session := 5, channel := 7\<rparr>" sample_codes quiet_world]
  by (simp add: non_tty_target_def calloc_transaction_def sample_codes_def)

subsection \<open>Creating a target\<close>

lemma strcspn_colon: "take (strcspn s '':'') s = takeWhile (\<lambda>c. c \<noteq> CHR '':'') s"
  by (simp add: strcspn_def takeWhile_eq_take [symmetric])

lemma to_uint32_small: "n < 4294967296 \<Longrightarrow> to_uint32 n = n"
  by (simp add: to_uint32_def)

lemma target_split_invalid:
  assumes "strcspn spec '':'' < 4294967296"
    and "take (strcspn spec '':'') spec = []
      \<or> take (strcspn spec '':'') spec \<notin> {''virtio'', ''ssh'', ''serial''}"
  shows "fst (twopence_target_split (Some spec)) = None"
  using assms
  by (auto simp: twopence_target_split_def to_uint32_small Let_def
      twopence_plugin_name_is_valid_def twopence_plugin_type_def)

text \<open>
  The length of the name is kept in an \<^verbatim>\<open>unsigned int\<close>. A name of 2^32 + 3
  characters that starts with \<open>ssh\<close> is cut after its third character and taken for
  \<open>ssh\<close>.
\<close>

lemma strcspn_append:
  assumes "CHR '':'' \<notin> set xs"
  shows "strcspn (xs @ CHR '':'' # ys) '':'' = length xs"
proof -
  from assms have "takeWhile (\<lambda>c. c \<noteq> CHR '':'') xs = xs"
    by (induction xs) auto
  moreover from assms
  have "takeWhile (\<lambda>c. c \<noteq> CHR '':'') (xs @ CHR '':'' # ys) = takeWhile (\<lambda>c. c \<noteq> CHR '':'') xs"
    by (induction xs) auto
  ultimately show ?thesis
    by (simp add: strcspn_def)
qed

lemma target_split_long_name:
  "twopence_target_split (Some (''ssh'' @ replicate 4294967296 CHR ''x'' @ '':host''))
     = (Some ''ssh'', Some (drop 4 (''ssh'' @ replicate 4294967296 CHR ''x'' @ '':host'')))"
proof -
  let ?xs = "''ssh'' @ replicate 4294967296 CHR ''x''"
  have "strcspn (?xs @ CHR '':'' # ''host'') '':'' = length ?xs"
    by (rule strcspn_append) simp
  then have len: "strcspn (''ssh'' @ replicate 4294967296 CHR ''x'' @ '':host'') '':'' = 4294967299"
    by simp
  have cut: "to_uint32 4294967299 = 3" "to_uint32 (3 + 1) = 4"
    by (simp_all add: to_uint32_def)
  show ?thesis
    unfolding twopence_target_split_def option.case len Let_def cut
    by (simp add: twopence_plugin_name_is_valid_def twopence_plugin_type_def)
qed

text \<open>
  C3, as the code has it. When the plugin name of a specification, the text before
  its first colon, is shorter than 2^32 characters and is empty or is not one of
  virtio, ssh and serial, creating the target fails with
  \<open>TWOPENCE_INVALID_TARGET_SPEC\<close> and gives no target.
\<close>

theorem target_new_invalid_spec:
  "length (takeWhile (\<lambda>c. c \<noteq> CHR '':'') spec) < 4294967296 \<Longrightarrow>
   takeWhile (\<lambda>c. c \<noteq> CHR '':'') spec = []
     \<or> takeWhile (\<lambda>c. c \<noteq> CHR '':'') spec \<notin> {''virtio'', ''ssh'', ''serial''} \<Longrightarrow>
   fst (twopence_target_new ec env handles spec) = ec TWOPENCE_INVALID_TARGET_SPEC
   \<and> fst (snd (twopence_target_new ec env handles spec)) = None"
proof -
  assume len: "length (takeWhile (\<lambda>c. c \<noteq> CHR '':'') spec) < 4294967296"
    and nm: "takeWhile (\<lambda>c. c \<noteq> CHR '':'') spec = []
     \<or> takeWhile (\<lambda>c. c \<noteq> CHR '':'') spec \<notin> {''virtio'', ''ssh'', ''serial''}"
  from len have "strcspn spec '':'' < 4294967296"
    by (simp add: strcspn_def)
  moreover from nm have "take (strcspn spec '':'') spec = []
      \<or> take (strcspn spec '':'') spec \<notin> {''virtio'', ''ssh'', ''serial''}"
    by (simp only: strcspn_colon)
  ultimately have "fst (twopence_target_split (Some spec)) = None"
    by (rule target_split_invalid)
  moreover have "fst (twopence_target_split None) = None"
    by (simp add: twopence_target_split_def)
  ultimately
  have "fst (twopence_target_split (if strdup_ok env spec then Some spec else None)) = None"
    by simp
  then show ?thesis
    by (cases "twopence_target_split (if strdup_ok env spec then Some spec else None)")
      (simp add: twopence_target_new_def uu_twopence_target_new_def)
qed

theorem target_new_invalid_spec_witness:
  "fst (twopence_target_new sample_codes null_loader no_handles ''foo:bar'') = - 12
   \<and> fst (snd (twopence_target_new sample_codes null_loader no_handles ''foo:bar'')) = None
   \<and> fst (twopence_target_new sample_codes null_loader no_handles '':bar'') = - 12
   \<and> fst (snd (twopence_target_new sample_codes null_loader no_handles '':bar'')) = None"
  using target_new_invalid_spec [of "''foo:bar''" sample_codes null_loader no_handles]
    target_new_invalid_spec [of "'':bar''" sample_codes null_loader no_handles]
  by (simp add: sample_codes_def)

text \<open>
  C3, as claimed, gives \<open>TWOPENCE_UNKNOWN_PLUGIN\<close> for these specifications. For the
  unknown name \<open>foo\<close> and for the empty name the code returns another code.
\<close>

theorem target_new_unknown_plugin_counterexample:
  "fst (twopence_target_new sample_codes null_loader no_handles ''foo:bar'')
     \<noteq> sample_codes TWOPENCE_UNKNOWN_PLUGIN
   \<and> fst (twopence_target_new sample_codes null_loader no_handles '':bar'')
     \<noteq> sample_codes TWOPENCE_UNKNOWN_PLUGIN"
  by (simp add: twopence_target_new_def uu_twopence_target_new_def twopence_target_split_def
      Let_def twopence_plugin_name_is_valid_def twopence_plugin_type_def strcspn_def
      to_uint32_def null_loader_def sample_codes_def)

subsection \<open>Writing to a sink\<close>

lemma write_stdout_at_bound:
  "mode sink = TWOPENCE_OUTPUT_BUFFER \<or> mode sink = TWOPENCE_OUTPUT_BUFFER_SEPARATELY \<Longrightarrow>
   end_p (outbuf sink) \<le> tail (outbuf sink) \<Longrightarrow>
   uu_twopence_sink_write_stdout (sink, m, w) c = (- 1, (sink, m, w))"
  by (auto simp: uu_twopence_sink_write_stdout_def uu_twopence_buffer_putc_def written_rc_def)

lemma write_stderr_at_bound_together:
  "mode sink = TWOPENCE_OUTPUT_BUFFER \<Longrightarrow>
   end_p (outbuf sink) \<le> tail (outbuf sink) \<Longrightarrow>
   uu_twopence_sink_write_stderr (sink, m, w) c = (- 1, (sink, m, w))"
  by (auto simp: uu_twopence_sink_write_stderr_def uu_twopence_buffer_putc_def written_rc_def)

lemma write_stderr_at_bound_separately:
  "mode sink = TWOPENCE_OUTPUT_BUFFER_SEPARATELY \<Longrightarrow>
   end_p (errbuf sink) \<le> tail (errbuf sink) \<Longrightarrow>
   uu_twopence_sink_write_stderr (sink, m, w) c = (- 1, (sink, m, w))"
  by (auto simp: uu_twopence_sink_write_stderr_def uu_twopence_buffer_putc_def written_rc_def)

lemma sink_write_at_bound:
  "mode sink = TWOPENCE_OUTPUT_BUFFER \<or> mode sink = TWOPENCE_OUTPUT_BUFFER_SEPARATELY \<Longrightarrow>
   end_p (outbuf sink) \<le> tail (outbuf sink) \<Longrightarrow> data \<noteq> [] \<Longrightarrow>
   twopence_sink_write (sink, m, w) False data = (- 1, (sink, m, w))"
  by (cases data) (simp_all add: twopence_sink_write_def write_stdout_at_bound)

lemma sink_write_error_at_bound:
  "uu_twopence_sink_write_stderr st c = (- 1, st) \<Longrightarrow>
   twopence_sink_write st True (c # data) = (- 1, st)"
  by (simp add: twopence_sink_write_def)

lemma sink_inv_init:
  "md = TWOPENCE_OUTPUT_BUFFER \<and> outb \<noteq> 0
     \<or> md = TWOPENCE_OUTPUT_BUFFER_SEPARATELY \<and> outb \<noteq> 0 \<and> errb \<noteq> 0 \<Longrightarrow>
   n \<noteq> 0 \<Longrightarrow>
   sink_inv md outb errb n m0 (fst (twopence_sink_init md outb errb n w0), m0,
     snd (twopence_sink_init md outb errb n w0))"
  by (auto simp: sink_inv_def twopence_sink_init_def zero_sink_def uu_twopence_buffer_init_def)

lemma sink_inv_putc:
  "md = TWOPENCE_OUTPUT_BUFFER \<or> md = TWOPENCE_OUTPUT_BUFFER_SEPARATELY \<Longrightarrow>
   sink_inv md outb errb n m0 st \<Longrightarrow>
   sink_inv md outb errb n m0 (snd (twopence_sink_putc st is_error c))"
  by (cases st)
     (auto simp: sink_inv_def twopence_sink_putc_def uu_twopence_sink_write_stdout_def
        uu_twopence_sink_write_stderr_def uu_twopence_buffer_putc_def split: if_splits)

lemma sink_inv_writes:
  "md = TWOPENCE_OUTPUT_BUFFER \<or> md = TWOPENCE_OUTPUT_BUFFER_SEPARATELY \<Longrightarrow>
   sink_inv md outb errb n m0 st \<Longrightarrow>
   sink_inv md outb errb n m0 (sink_writes st ws)"
  unfolding sink_writes_def
proof (induction ws arbitrary: st)
  case Nil
  then show ?case by simp
next
  case (Cons x ws)
  obtain is_error c where x: "x = (is_error, c)" by (cases x)
  from Cons.prems have "sink_inv md outb errb n m0 (snd (twopence_sink_putc st is_error c))"
    by (rule sink_inv_putc)
  with Cons.IH [OF Cons.prems(1)] show ?case by (simp add: x)
qed


text \<open>
  C2, as the code has it. A sink is initialised in a buffer mode with its buffers and
  a bound of \<open>n\<close> bytes, and any sequence of bytes is written to it. Then the cursor
  of each buffer is not beyond its bound, the memory outside the buffers is as before,
  and once the cursor of a buffer is at the bound, a further write to it changes
  nothing (sink, memory and world are the same) and returns -1, as does
  \<open>twopence_sink_write\<close> of any bytes to it, for stdout and for stderr.
\<close>

theorem buffer_sink_write_at_bound:
  assumes md: "md = TWOPENCE_OUTPUT_BUFFER \<and> outb \<noteq> 0
             \<or> md = TWOPENCE_OUTPUT_BUFFER_SEPARATELY \<and> outb \<noteq> 0 \<and> errb \<noteq> 0"
    and n: "n \<noteq> 0"
    and init: "twopence_sink_init md outb errb n w0 = (sink0, w1)"
    and writes: "sink_writes (sink0, m0, w1) ws = (sink, m, w)"
  shows "tail (outbuf sink) \<le> outb + n
    \<and> (md = TWOPENCE_OUTPUT_BUFFER_SEPARATELY \<longrightarrow> tail (errbuf sink) \<le> errb + n)
    \<and> (\<forall>a. (a < outb \<or> outb + n \<le> a)
            \<and> (md = TWOPENCE_OUTPUT_BUFFER_SEPARATELY \<longrightarrow> a < errb \<or> errb + n \<le> a)
          \<longrightarrow> m a = m0 a)
    \<and> (tail (outbuf sink) = outb + n \<longrightarrow>
          uu_twopence_sink_write_stdout (sink, m, w) c = (- 1, (sink, m, w))
          \<and> twopence_sink_write (sink, m, w) False (c # data) = (- 1, (sink, m, w)))
    \<and> (md = TWOPENCE_OUTPUT_BUFFER \<and> tail (outbuf sink) = outb + n \<longrightarrow>
          uu_twopence_sink_write_stderr (sink, m, w) c = (- 1, (sink, m, w))
          \<and> twopence_sink_write (sink, m, w) True (c # data) = (- 1, (sink, m, w)))
    \<and> (md = TWOPENCE_OUTPUT_BUFFER_SEPARATELY \<and> tail (errbuf sink) = errb + n \<longrightarrow>
          uu_twopence_sink_write_stderr (sink, m, w) c = (- 1, (sink, m, w))
          \<and> twopence_sink_write (sink, m, w) True (c # data) = (- 1, (sink, m, w)))"
proof -
  from md have modes: "md = TWOPENCE_OUTPUT_BUFFER \<or> md = TWOPENCE_OUTPUT_BUFFER_SEPARATELY"
    by auto
  have "sink_inv md outb errb n m0 (sink0, m0, w1)"
    using sink_inv_init [OF md n, of m0 w0] by (simp add: init)
  then have "sink_inv md outb errb n m0 (sink_writes (sink0, m0, w1) ws)"
    by (rule sink_inv_writes [OF modes])
  then have inv: "sink_inv md outb errb n m0 (sink, m, w)"
    by (simp add: writes)
  then have mode: "mode sink = md" and end_out: "end_p (outbuf sink) = outb + n"
    by (simp_all add: sink_inv_def)
  have bound: "tail (outbuf sink) \<le> outb + n"
    using inv by (simp add: sink_inv_def)
  have bound_err: "md = TWOPENCE_OUTPUT_BUFFER_SEPARATELY \<longrightarrow> tail (errbuf sink) \<le> errb + n"
    using inv by (simp add: sink_inv_def)
  have outside: "\<forall>a. (a < outb \<or> outb + n \<le> a)
            \<and> (md = TWOPENCE_OUTPUT_BUFFER_SEPARATELY \<longrightarrow> a < errb \<or> errb + n \<le> a)
          \<longrightarrow> m a = m0 a"
    using inv by (simp add: sink_inv_def)
  have out: "tail (outbuf sink) = outb + n \<longrightarrow>
          uu_twopence_sink_write_stdout (sink, m, w) c = (- 1, (sink, m, w))
          \<and> twopence_sink_write (sink, m, w) False (c # data) = (- 1, (sink, m, w))"
    using modes mode end_out
    by (simp add: write_stdout_at_bound sink_write_at_bound)
  have err1: "md = TWOPENCE_OUTPUT_BUFFER \<and> tail (outbuf sink) = outb + n \<longrightarrow>
          uu_twopence_sink_write_stderr (sink, m, w) c = (- 1, (sink, m, w))
          \<and> twopence_sink_write (sink, m, w) True (c # data) = (- 1, (sink, m, w))"
    using mode end_out
    by (simp add: write_stderr_at_bound_together sink_write_error_at_bound)
  have err2: "md = TWOPENCE_OUTPUT_BUFFER_SEPARATELY \<and> tail (errbuf sink) = errb + n \<longrightarrow>
          uu_twopence_sink_write_stderr (sink, m, w) c = (- 1, (sink, m, w))
          \<and> twopence_sink_write (sink, m, w) True (c # data) = (- 1, (sink, m, w))"
    using mode inv
    by (simp add: sink_inv_def write_stderr_at_bound_separately sink_write_error_at_bound)
  from bound bound_err outside out err1 err2 show ?thesis
    by (intro conjI)
qed

lemma full_sink_eval:
  "full_sink =
     (\<lparr>mode = TWOPENCE_OUTPUT_BUFFER, outbuf = \<lparr>tail = 102, end_p = 102\<rparr>,
       errbuf = \<lparr>tail = 0, end_p = 0\<rparr>\<rparr>,
      blank_memory(100 := CHR ''a'', 101 := CHR ''b''), quiet_world)"
  by (simp add: full_sink_def sink_writes_def twopence_sink_init_def zero_sink_def
      uu_twopence_buffer_init_def twopence_sink_putc_def uu_twopence_sink_write_stdout_def
      uu_twopence_sink_write_stderr_def uu_twopence_buffer_putc_def written_rc_def)

lemma full_sink_separately_eval:
  "full_sink_separately =
     (\<lparr>mode = TWOPENCE_OUTPUT_BUFFER_SEPARATELY, outbuf = \<lparr>tail = 101, end_p = 102\<rparr>,
       errbuf = \<lparr>tail = 202, end_p = 202\<rparr>\<rparr>,
      blank_memory(100 := CHR ''a'', 200 := CHR ''b'', 201 := CHR ''c''), quiet_world)"
  by (simp add: full_sink_separately_def sink_writes_def twopence_sink_init_def zero_sink_def
      uu_twopence_buffer_init_def twopence_sink_putc_def uu_twopence_sink_write_stdout_def
      uu_twopence_sink_write_stderr_def uu_twopence_buffer_putc_def written_rc_def)

theorem buffer_sink_write_at_bound_witness:
  "tail (outbuf (fst full_sink)) = 100 + 2
   \<and> fst (snd full_sink) 102 = blank_memory 102
   \<and> uu_twopence_sink_write_stdout full_sink CHR ''c'' = (- 1, full_sink)
   \<and> twopence_sink_write full_sink False ''cd'' = (- 1, full_sink)
   \<and> uu_twopence_sink_write_stderr full_sink CHR ''c'' = (- 1, full_sink)
   \<and> twopence_sink_write full_sink True ''cd'' = (- 1, full_sink)
   \<and> tail (errbuf (fst full_sink_separately)) = 200 + 2
   \<and> fst (snd full_sink_separately) 202 = blank_memory 202
   \<and> uu_twopence_sink_write_stderr full_sink_separately CHR ''d'' = (- 1, full_sink_separately)
   \<and> twopence_sink_write full_sink_separately True ''de'' = (- 1, full_sink_separately)"
proof -
  have together:
    "tail (outbuf (fst full_sink)) = 100 + 2
     \<and> fst (snd full_sink) 102 = blank_memory 102
     \<and> uu_twopence_sink_write_stdout full_sink CHR ''c'' = (- 1, full_sink)
     \<and> twopence_sink_write full_sink False ''cd'' = (- 1, full_sink)
     \<and> uu_twopence_sink_write_stderr full_sink CHR ''c'' = (- 1, full_sink)
     \<and> twopence_sink_write full_sink True ''cd'' = (- 1, full_sink)"
    using buffer_sink_write_at_bound
      [of TWOPENCE_OUTPUT_BUFFER 100 0 2 quiet_world
          "fst (twopence_sink_init TWOPENCE_OUTPUT_BUFFER 100 0 2 quiet_world)"
          "snd (twopence_sink_init TWOPENCE_OUTPUT_BUFFER 100 0 2 quiet_world)"
          blank_memory "[(False, CHR ''a''), (True, CHR ''b'')]"
          "fst full_sink" "fst (snd full_sink)" "snd (snd full_sink)" "CHR ''c''" "''d''"]
    by (simp add: full_sink_def [symmetric]) (simp add: full_sink_eval)
  have separately:
    "tail (errbuf (fst full_sink_separately)) = 200 + 2
     \<and> fst (snd full_sink_separately) 202 = blank_memory 202
     \<and> uu_twopence_sink_write_stderr full_sink_separately CHR ''d'' = (- 1, full_sink_separately)
     \<and> twopence_sink_write full_sink_separately True ''de'' = (- 1, full_sink_separately)"
    using buffer_sink_write_at_bound
      [of TWOPENCE_OUTPUT_BUFFER_SEPARATELY 100 200 2 quiet_world
          "fst (twopence_sink_init TWOPENCE_OUTPUT_BUFFER_SEPARATELY 100 200 2 quiet_world)"
          "snd (twopence_sink_init TWOPENCE_OUTPUT_BUFFER_SEPARATELY 100 200 2 quiet_world)"
          blank_memory "[(False, CHR ''a''), (True, CHR ''b''), (True, CHR ''c'')]"
          "fst full_sink_separately" "fst (snd full_sink_separately)"
          "snd (snd full_sink_separately)" "CHR ''d''" "''e''"]
    by (simp add: full_sink_separately_def [symmetric]) (simp add: full_sink_separately_eval)
  from together separately show ?thesis
    by (simp only: simp_thms)
qed

text \<open>
  C2, as claimed, says that the write at the bound reports success. It reports -1.
\<close>

theorem sink_write_success_counterexample:
  "fst (uu_twopence_sink_write_stdout full_sink CHR ''c'') = - 1
   \<and> fst (twopence_sink_write full_sink False ''c'') = - 1"
  by (simp add: full_sink_eval twopence_sink_write_def uu_twopence_sink_write_stdout_def
      uu_twopence_buffer_putc_def written_rc_def)

subsection \<open>Exit status and exit signal\<close>

lemma signame_loop_absent: "Some s \<notin> set xs \<Longrightarrow> signame_loop xs k s = - 1"
  by (induction xs arbitrary: k) auto

lemma send_eof_keeps:
  "uu_twopence_ssh_transaction_send_eof tr w = (rc, tr1, w1) \<Longrightarrow>
     channel tr1 = channel tr \<and> exit_signal tr1 = exit_signal tr \<and> status_ret tr1 = status_ret tr"
  by (auto simp: uu_twopence_ssh_transaction_send_eof_def Let_def split: if_splits prod.splits)

lemma run_callbacks_keeps:
  "channel (run_callbacks tr signals) = channel tr
   \<and> status_ret (run_callbacks tr signals) = status_ret tr"
  unfolding run_callbacks_def
  by (induction signals arbitrary: tr) (simp_all add: uu_twopence_ssh_exit_signal_callback_def)

lemma run_callbacks_last:
  "exit_signal (run_callbacks tr (signals @ [nm])) = signame_loop signames 0 nm"
  by (simp add: run_callbacks_def uu_twopence_ssh_exit_signal_callback_def)

text \<open>Every entry of the array is empty or a name of the initialiser list.\<close>

lemma designated_entries:
  "set (foldl (\<lambda>a (i, nm). a[i := Some nm]) a inits) \<subseteq> set a \<union> Some ` snd ` set inits"
proof (induction inits arbitrary: a)
  case Nil
  then show ?case by simp
next
  case (Cons x inits)
  obtain i nm where x: "x = (i, nm)" by (cases x)
  have "set (a[i := Some nm]) \<subseteq> insert (Some nm) (set a)"
    by (rule set_update_subset_insert)
  with Cons.IH [of "a[i := Some nm]"] show ?case
    by (auto simp: x)
qed

lemma signames_names: "Some nm \<in> set signames \<Longrightarrow> nm \<in> snd ` set signames_init"
  using designated_entries [of "replicate NSIG None" signames_init]
  by (auto simp: signames_def)

text \<open>
  The callback on the names of the initialiser list: each gives its signal number,
  but for ABRT.
\<close>

lemma signames_init_all:
  "list_all (\<lambda>(n, nm). nm = ''ABRT'' \<or> signame_loop signames 0 nm = int n) signames_init"
  by code_simp

lemma signame_abrt: "signame_loop signames 0 ''ABRT'' = - 1"
  by code_simp

text \<open>
  C5. The claim is that a status that reads as \<^verbatim>\<open>SSH_ERROR\<close> while the callback has
  recorded a signal value other than 0 is reported as major \<^verbatim>\<open>EFAULT\<close> and minor that
  value (this the code does), and that the callback records the signal number of a
  recognised name and -1 for any other. The table of the callback lists ABRT for
  \<^verbatim>\<open>SIGABRT\<close> and then IOT for \<^verbatim>\<open>SIGIOT\<close>, the same index: the second initialiser
  replaces the first. Every other name of the table gives its number and a name
  outside the table gives -1, but ABRT gives -1 as well, and a command that dies of
  \<^verbatim>\<open>SIGABRT\<close> is reported with minor -1.
\<close>

theorem abrt_signal_recorded_as_unknown:
  "(status_ret tr \<and> channel tr \<noteq> 0
      \<and> uu_twopence_ssh_transaction_send_eof tr w = (rc, tr0, w1) \<and> rc \<noteq> SSH_ERROR
      \<and> next_answer w1 = SSH_ERROR
      \<and> tr2 = run_callbacks (if eof_sent tr then tr0 else run_callbacks tr0 during_eof)
                 during_status
      \<and> exit_signal tr2 \<noteq> 0
    \<longrightarrow> uu_twopence_ssh_transaction_get_exit_status ec during_eof during_status tr status w =
          (0, tr2\<lparr>status_ret := False\<rparr>, status\<lparr>major := EFAULT, minor := exit_signal tr2\<rparr>,
           advance ''ssh_channel_get_exit_status'' [I (channel tr)] w1))
   \<and> (\<forall>(n, s) \<in> set signames_init.
         s \<noteq> ''ABRT'' \<longrightarrow> exit_signal (uu_twopence_ssh_exit_signal_callback tr s) = int n)
   \<and> (nm \<notin> snd ` set signames_init \<longrightarrow>
         exit_signal (uu_twopence_ssh_exit_signal_callback tr nm) = - 1)
   \<and> (SIGABRT, ''ABRT'') \<in> set signames_init
   \<and> exit_signal (uu_twopence_ssh_exit_signal_callback tr ''ABRT'') = - 1
   \<and> (status_ret tr \<and> channel tr \<noteq> 0
        \<and> uu_twopence_ssh_transaction_send_eof tr w = (rc, tr0, w1) \<and> rc \<noteq> SSH_ERROR
        \<and> next_answer w1 = SSH_ERROR
      \<longrightarrow> fst (snd (snd (uu_twopence_ssh_transaction_get_exit_status ec during_eof
                            (signals @ [''ABRT'']) tr status w)))
            = status\<lparr>major := EFAULT, minor := - 1\<rparr>)"
proof -
  have synth: "uu_twopence_ssh_transaction_get_exit_status ec e d tr status w =
          (0, t2\<lparr>status_ret := False\<rparr>, status\<lparr>major := EFAULT, minor := exit_signal t2\<rparr>,
           advance ''ssh_channel_get_exit_status'' [I (channel tr)] w1)"
    if "status_ret tr" "channel tr \<noteq> 0"
      and eof: "uu_twopence_ssh_transaction_send_eof tr w = (rc, tr0, w1)" and "rc \<noteq> SSH_ERROR"
      and "next_answer w1 = SSH_ERROR"
      and "t2 = run_callbacks (if eof_sent tr then tr0 else run_callbacks tr0 e) d"
      and "exit_signal t2 \<noteq> 0"
    for e d t2
    using that send_eof_keeps [OF eof] run_callbacks_keeps [of tr0 e]
    by (simp add: uu_twopence_ssh_transaction_get_exit_status_def ext_def Let_def)
  have listed: "\<forall>(n, s) \<in> set signames_init.
         s \<noteq> ''ABRT'' \<longrightarrow> exit_signal (uu_twopence_ssh_exit_signal_callback tr s) = int n"
    using signames_init_all
    by (auto simp: list_all_iff uu_twopence_ssh_exit_signal_callback_def)
  have unknown: "exit_signal (uu_twopence_ssh_exit_signal_callback tr nm) = - 1"
    if "nm \<notin> snd ` set signames_init"
    using that signames_names [of nm]
    by (auto simp: uu_twopence_ssh_exit_signal_callback_def intro: signame_loop_absent)
  have abrt_listed: "(SIGABRT, ''ABRT'') \<in> set signames_init"
    by (simp add: signames_init_def)
  have abrt: "exit_signal (uu_twopence_ssh_exit_signal_callback tr ''ABRT'') = - 1"
    by (simp add: uu_twopence_ssh_exit_signal_callback_def signame_abrt)
  have died: "fst (snd (snd (uu_twopence_ssh_transaction_get_exit_status ec during_eof
                            (signals @ [''ABRT'']) tr status w)))
            = status\<lparr>major := EFAULT, minor := - 1\<rparr>"
    if "status_ret tr" "channel tr \<noteq> 0"
      and eof: "uu_twopence_ssh_transaction_send_eof tr w = (rc, tr0, w1)" and "rc \<noteq> SSH_ERROR"
      and "next_answer w1 = SSH_ERROR"
  proof -
    let ?t2 = "run_callbacks (if eof_sent tr then tr0 else run_callbacks tr0 during_eof)
                 (signals @ [''ABRT''])"
    have sg: "exit_signal ?t2 = - 1"
      by (simp only: run_callbacks_last signame_abrt)
    from synth [OF that, of ?t2 during_eof "signals @ [''ABRT'']"] sg show ?thesis
      by simp
  qed
  from synth [of tr2 during_eof during_status] listed unknown abrt_listed abrt died
  show ?thesis by blast
qed

theorem abrt_signal_recorded_as_unknown_witness:
  "uu_twopence_ssh_transaction_get_exit_status sample_codes [] [''ABRT''] awaiting_transaction
       \<lparr>major = 0, minor = 0\<rparr> signalled_world =
     (0, awaiting_transaction\<lparr>eof_sent := True, exit_signal := - 1, status_ret := False\<rparr>,
      \<lparr>major = 0, minor = 0\<rparr>\<lparr>major := EFAULT, minor := - 1\<rparr>,
      \<lparr>answers = [],
       trace = [Call ''ssh_channel_send_eof'' [I 7], Call ''ssh_channel_get_exit_status'' [I 7]]\<rparr>)
   \<and> exit_signal (uu_twopence_ssh_exit_signal_callback calloc_transaction ''INT'') = int SIGINT
   \<and> exit_signal (uu_twopence_ssh_exit_signal_callback calloc_transaction ''ABRT'')
       \<noteq> int SIGABRT
   \<and> exit_signal (uu_twopence_ssh_exit_signal_callback calloc_transaction ''FOO'') = - 1"
proof -
  let ?w1 = "\<lparr>answers = [- 1], trace = [Call ''ssh_channel_send_eof'' [I 7]]\<rparr>"
  let ?t0 = "awaiting_transaction\<lparr>eof_sent := True\<rparr>"
  let ?t2 = "awaiting_transaction\<lparr>eof_sent := True, exit_signal := - 1\<rparr>"
  have fields: "status_ret awaiting_transaction" "channel awaiting_transaction = 7"
    "\<not> eof_sent awaiting_transaction" "\<not> use_tty awaiting_transaction"
    by (simp_all add: awaiting_transaction_def calloc_transaction_def)
  have eof: "uu_twopence_ssh_transaction_send_eof awaiting_transaction signalled_world =
      (0, ?t0, ?w1)"
    by (simp add: uu_twopence_ssh_transaction_send_eof_def fields ext_def next_answer_def
        advance_def SSH_OK_def signalled_world_def)
  have es: "next_answer ?w1 = SSH_ERROR" "(0::int) \<noteq> SSH_ERROR"
    by (simp_all add: next_answer_def SSH_ERROR_def)
  have t2: "?t2 = run_callbacks (if eof_sent awaiting_transaction then ?t0
                                  else run_callbacks ?t0 []) [''ABRT'']"
    by (simp add: fields run_callbacks_def uu_twopence_ssh_exit_signal_callback_def signame_abrt)
  have sg: "exit_signal ?t2 \<noteq> 0"
    by simp
  have ch: "channel awaiting_transaction \<noteq> 0"
    by (simp add: fields)
  have hyp: "status_ret awaiting_transaction \<and> channel awaiting_transaction \<noteq> 0
      \<and> uu_twopence_ssh_transaction_send_eof awaiting_transaction signalled_world = (0, ?t0, ?w1)
      \<and> 0 \<noteq> SSH_ERROR \<and> next_answer ?w1 = SSH_ERROR
      \<and> ?t2 = run_callbacks (if eof_sent awaiting_transaction then ?t0
                                else run_callbacks ?t0 []) [''ABRT'']
      \<and> exit_signal ?t2 \<noteq> 0"
    by (intro conjI fields(1) ch eof es t2 sg)
  have int: "(SIGINT, ''INT'') \<in> set signames_init"
    by (simp add: signames_init_def)
  have foo: "''FOO'' \<notin> snd ` set signames_init"
    by (simp add: signames_init_def)
  note inst = abrt_signal_recorded_as_unknown
    [of awaiting_transaction signalled_world 0 ?t0 ?w1 ?t2 "[]" "[''ABRT'']" sample_codes
        "\<lparr>major = 0, minor = 0\<rparr>" "''FOO''"]
  from inst [THEN conjunct1, THEN mp, OF hyp]
  have run: "uu_twopence_ssh_transaction_get_exit_status sample_codes [] [''ABRT'']
       awaiting_transaction \<lparr>major = 0, minor = 0\<rparr> signalled_world =
     (0, ?t2\<lparr>status_ret := False\<rparr>, \<lparr>major = 0, minor = 0\<rparr>\<lparr>major := EFAULT, minor := - 1\<rparr>,
      \<lparr>answers = [],
       trace = [Call ''ssh_channel_send_eof'' [I 7], Call ''ssh_channel_get_exit_status'' [I 7]]\<rparr>)"
    by (simp add: fields advance_def)
  note names = abrt_signal_recorded_as_unknown [of calloc_transaction _ _ _ _ _ _ _ _ _ "''FOO''"]
  from bspec [OF names [THEN conjunct2, THEN conjunct1] int]
  have int_ok: "exit_signal (uu_twopence_ssh_exit_signal_callback calloc_transaction ''INT'') = int SIGINT"
    by simp
  note abrt = names [THEN conjunct2, THEN conjunct2, THEN conjunct2, THEN conjunct2, THEN conjunct1]
  note foo_ok = names [THEN conjunct2, THEN conjunct2, THEN conjunct1, THEN mp, OF foo]
  from abrt have abrt_ne:
    "exit_signal (uu_twopence_ssh_exit_signal_callback calloc_transaction ''ABRT'') \<noteq> int SIGABRT"
    by (simp add: SIGABRT_def)
  from run int_ok abrt_ne foo_ok show ?thesis
    by (intro conjI)
qed

subsection \<open>Sending the end of input\<close>

lemma send_eof_after_sent:
  "eof_sent tr \<Longrightarrow> uu_twopence_ssh_transaction_send_eof tr w = (SSH_OK, tr, w)"
  by (simp add: uu_twopence_ssh_transaction_send_eof_def)

lemma send_eof_tty_one:
  "channel tr \<noteq> 0 \<Longrightarrow> use_tty tr \<Longrightarrow> \<not> eof_sent tr \<Longrightarrow> answers w = 1 # rest \<Longrightarrow>
     uu_twopence_ssh_transaction_send_eof tr w =
       (1, tr, w\<lparr>answers := rest,
                 trace := trace w @ [Call ''ssh_channel_write'' [I (channel tr), S [CHR 0x04], I 1]]\<rparr>)"
  by (simp add: uu_twopence_ssh_transaction_send_eof_def ext_def next_answer_def advance_def SSH_OK_def)

text \<open>
  C7. The claim is that the end-of-input action, the byte 0x04 under a tty and then
  the end of file on the channel, is performed at most once however often the routine
  is invoked. The routine takes the result of \<^verbatim>\<open>ssh_channel_write\<close> for a status and
  goes on only when it is \<^verbatim>\<open>SSH_OK\<close>, which is 0; a write of the one byte returns 1.
  So under a tty \<open>n\<close> invocations write the byte 0x04 \<open>n\<close> times, never send the end
  of file and never set \<open>eof_sent\<close>.
\<close>

theorem send_eof_repeats_under_tty:
  "channel tr \<noteq> 0 \<Longrightarrow> use_tty tr \<Longrightarrow> \<not> eof_sent tr \<Longrightarrow> answers w = replicate n 1 @ rest \<Longrightarrow>
     send_eof_times n tr w =
       (tr, w\<lparr>answers := rest,
              trace := trace w
                @ replicate n (Call ''ssh_channel_write'' [I (channel tr), S [CHR 0x04], I 1])\<rparr>)"
proof (induction n arbitrary: w)
  case 0
  then show ?case by simp
next
  case (Suc n)
  from Suc.prems have one: "uu_twopence_ssh_transaction_send_eof tr w =
       (1, tr, w\<lparr>answers := replicate n 1 @ rest,
                 trace := trace w @ [Call ''ssh_channel_write'' [I (channel tr), S [CHR 0x04], I 1]]\<rparr>)"
    by (simp add: send_eof_tty_one)
  show ?case
    using Suc.IH [OF Suc.prems(1-3), of "w\<lparr>answers := replicate n 1 @ rest,
                 trace := trace w @ [Call ''ssh_channel_write'' [I (channel tr), S [CHR 0x04], I 1]]\<rparr>"]
    by (simp add: one replicate_append_same)
qed

theorem send_eof_repeats_under_tty_witness:
  "send_eof_times 2 tty_transaction writing_world =
     (tty_transaction,
      \<lparr>answers = [],
       trace = [Call ''ssh_channel_write'' [I 7, S [CHR 0x04], I 1],
                Call ''ssh_channel_write'' [I 7, S [CHR 0x04], I 1]]\<rparr>)
   \<and> \<not> eof_sent (fst (send_eof_times 2 tty_transaction writing_world))"
  using send_eof_repeats_under_tty [of tty_transaction writing_world 2 "[]"]
  by (simp add: tty_transaction_def writing_world_def calloc_transaction_def numeral_2_eq_2)


subsection \<open>The target specification of the SSH plugin\<close>

lemma strrchr_None: "strrchr s c = None \<longleftrightarrow> c \<notin> set s"
  by (induction s) (auto split: option.splits)

lemma strrchr_last: "c \<notin> set p \<Longrightarrow> strrchr (h @ c # p) c = Some (length h)"
  by (induction h) (auto simp: strrchr_None split: option.splits)

lemma isdigit_not_space_sign:
  "isdigit c \<Longrightarrow> \<not> isspace c \<and> c \<noteq> CHR ''-'' \<and> c \<noteq> CHR ''+''"
  by (auto simp: isdigit_def isspace_def)

lemma strtoul_digits:
  "p \<noteq> [] \<Longrightarrow> list_all isdigit p \<Longrightarrow>
     strtoul p = (if digits_value p > ULONG_MAX then ULONG_MAX else digits_value p, [])"
proof -
  assume p: "p \<noteq> []" "list_all isdigit p"
  then obtain c cs where pc: "p = c # cs" by (cases p) auto
  with p have c: "isdigit c" and cs: "list_all isdigit cs" by simp_all
  have tw: "takeWhile isdigit cs = cs" "dropWhile isdigit cs = []"
    using cs by (simp_all add: list_all_iff)
  have sp: "\<not> isspace c" "c \<noteq> CHR ''-''" "c \<noteq> CHR ''+''"
    using isdigit_not_space_sign [OF c] by simp_all
  have "strtoul (c # cs) = (if digits_value (c # cs) > ULONG_MAX then ULONG_MAX else digits_value (c # cs), [])"
    unfolding strtoul_def Let_def
    by (simp only: dropWhile.simps sp c tw takeWhile.simps if_False if_True list.case prod.case list.distinct)
  then show ?thesis by (simp only: pc)
qed

lemma strrchr_examples:
  "strrchr ''host'' CHR '':'' = None"
  "strrchr ''host:2222'' CHR '':'' = Some 4"
  "strrchr ''[::1]:22'' CHR '':'' = Some 5"
  "strrchr ''host:99999'' CHR '':'' = Some 4"
  "strrchr ''host:-18446744073709551594'' CHR '':'' = Some 4"
  "strrchr ''host: 22'' CHR '':'' = Some 4"
  "strrchr ''host:'' CHR '':'' = Some 4"
  by simp_all

lemma strtoul_examples:
  "strtoul ''2222'' = (2222, [])" "strtoul ''22'' = (22, [])"
  "strtoul ''99999'' = (99999, [])"
  "strtoul '' 22'' = (22, [])" "strtoul [] = (0, [])"
  "strtoul ''22x'' = (22, ''x'')"
  "strtoul ''-18446744073709551594'' = (22, [])"
  by (simp_all add: strtoul_def isspace_def isdigit_def digits_value_def ULONG_MAX_def)



text \<open>
  What the parsing of the SSH body does on well-formed input: without a colon the port
  is 22; a port of decimal digits is taken when it is below 65535 and refused
  otherwise; the brackets around the host are removed.
\<close>

lemma ssh_init_examples:
  "CHR '':'' \<notin> set body \<Longrightarrow> twopence_ssh_init body w = uu_twopence_ssh_init body 22 w"
  "twopence_ssh_init ''host:2222'' w = uu_twopence_ssh_init ''host'' 2222 w"
  "twopence_ssh_init ''[::1]:22'' w = uu_twopence_ssh_init ''::1'' 22 w"
  "twopence_ssh_init ''host:99999'' w = (None, w)"
  by (simp_all add: twopence_ssh_init_def strrchr_examples strtoul_examples
      strrchr_None [THEN iffD2])

lemma ssh_init_digit_port:
  assumes "p \<noteq> []" "list_all isdigit p"
  shows "twopence_ssh_init (h @ CHR '':'' # p) w =
     (if 65535 \<le> digits_value p then (None, w)
      else uu_twopence_ssh_init
             (if h \<noteq> [] \<and> hd h = CHR ''['' \<and> last h = CHR '']'' then butlast (tl h) else h)
             (digits_value p) w)"
proof -
  have "\<not> isdigit CHR '':''"
    by (simp add: isdigit_def)
  with assms(2) have "CHR '':'' \<notin> set p"
    by (auto simp: list_all_iff)
  then have colon: "strrchr (h @ CHR '':'' # p) CHR '':'' = Some (length h)"
    by (rule strrchr_last)
  have big: "65535 \<le> ULONG_MAX"
    by (simp add: ULONG_MAX_def)
  show ?thesis
    using big by (auto simp: twopence_ssh_init_def colon strtoul_digits [OF assms])
qed

text \<open>
  C6. The claim holds for its examples (lemma \<open>ssh_init_examples\<close>), but it also
  says that every trailing port that is not a decimal integer in [0, 65535) yields no
  handle. \<^verbatim>\<open>strtoul\<close> skips white space, accepts a sign and accepts the empty string,
  and the code only checks that nothing is left and that the value is below 65535:
  the ports \<open>-18446744073709551594\<close> and \<open>22\<close> after a blank are taken as 22, the
  empty port as 0, and the handle is created as for a well-formed port.
\<close>

theorem ssh_init_accepts_malformed_port:
  "twopence_ssh_init ''host:-18446744073709551594'' w = uu_twopence_ssh_init ''host'' 22 w
   \<and> twopence_ssh_init ''host: 22'' w = uu_twopence_ssh_init ''host'' 22 w
   \<and> twopence_ssh_init ''host:'' w = uu_twopence_ssh_init ''host'' 0 w
   \<and> uu_twopence_ssh_init ''host'' 22 init_world =
       (Some \<lparr>plugin_type = TWOPENCE_PLUGIN_SSH, ops = Twopence_ssh_ops_ref, template = 2,
               foreground = None\<rparr>,
        \<lparr>answers = [],
         trace = [Call ''calloc'' [I 1, S ''struct twopence_ssh_target''], Call ''ssh_new'' [],
                  Call ''ssh_options_set'' [I 2, S ''SSH_OPTIONS_HOST'', S ''host''],
                  Call ''ssh_options_set'' [I 2, S ''SSH_OPTIONS_PORT'', I 22]]\<rparr>)"
proof -
  have parse: "twopence_ssh_init ''host:-18446744073709551594'' w = uu_twopence_ssh_init ''host'' 22 w"
    "twopence_ssh_init ''host: 22'' w = uu_twopence_ssh_init ''host'' 22 w"
    "twopence_ssh_init ''host:'' w = uu_twopence_ssh_init ''host'' 0 w"
    by (simp_all add: twopence_ssh_init_def strrchr_examples strtoul_examples)
  have "uu_twopence_ssh_init ''host'' 22 init_world =
       (Some \<lparr>plugin_type = TWOPENCE_PLUGIN_SSH, ops = Twopence_ssh_ops_ref, template = 2,
               foreground = None\<rparr>,
        \<lparr>answers = [],
         trace = [Call ''calloc'' [I 1, S ''struct twopence_ssh_target''], Call ''ssh_new'' [],
                  Call ''ssh_options_set'' [I 2, S ''SSH_OPTIONS_HOST'', S ''host''],
                  Call ''ssh_options_set'' [I 2, S ''SSH_OPTIONS_PORT'', I 22]]\<rparr>)"
    by (simp add: uu_twopence_ssh_init_def init_world_def ext_def next_answer_def advance_def)
  with parse show ?thesis by simp
qed


theorem ssh_init_accepts_malformed_port_witness:
  "fst (twopence_ssh_init ''host:-18446744073709551594'' init_world) =
     Some \<lparr>plugin_type = TWOPENCE_PLUGIN_SSH, ops = Twopence_ssh_ops_ref, template = 2,
            foreground = None\<rparr>
   \<and> fst (twopence_ssh_init ''host: 22'' init_world) =
     Some \<lparr>plugin_type = TWOPENCE_PLUGIN_SSH, ops = Twopence_ssh_ops_ref, template = 2,
            foreground = None\<rparr>
   \<and> trace (snd (twopence_ssh_init ''host: 22'' init_world)) =
     [Call ''calloc'' [I 1, S ''struct twopence_ssh_target''], Call ''ssh_new'' [],
      Call ''ssh_options_set'' [I 2, S ''SSH_OPTIONS_HOST'', S ''host''],
      Call ''ssh_options_set'' [I 2, S ''SSH_OPTIONS_PORT'', I 22]]"
  using ssh_init_accepts_malformed_port [of init_world]
  by simp

subsection \<open>File transfers\<close>

lemma nts_iff:
  "no_teardown_since t w \<longleftrightarrow>
     (\<exists>cs. trace w = t @ cs \<and> list_all (\<lambda>c. \<not> teardown_call c) cs)"
proof
  assume a: "no_teardown_since t w"
  then have "trace w = t @ drop (length t) (trace w)"
    by (metis append_take_drop_id no_teardown_since_def)
  with a show "\<exists>cs. trace w = t @ cs \<and> list_all (\<lambda>c. \<not> teardown_call c) cs"
    unfolding no_teardown_since_def by blast
next
  assume "\<exists>cs. trace w = t @ cs \<and> list_all (\<lambda>c. \<not> teardown_call c) cs"
  then show "no_teardown_since t w"
    by (auto simp: no_teardown_since_def)
qed

lemma nts_start: "no_teardown_since (trace w) w"
  by (simp add: no_teardown_since_def)

lemma nts_advance:
  "no_teardown_since t w \<Longrightarrow>
     f \<notin> set [''ssh_scp_close'', ''ssh_scp_free'', ''ssh_disconnect'', ''ssh_free''] \<Longrightarrow>
     no_teardown_since t (advance f args w)"
  by (auto simp: nts_iff advance_def teardown_call_def)

lemma nts_output:
  "no_teardown_since t w \<Longrightarrow> no_teardown_since t (snd (uu_twopence_ssh_output c w))"
  by (simp add: uu_twopence_ssh_output_def ext_def nts_advance)

lemma to_int32_small: "- 2147483648 \<le> x \<Longrightarrow> x < 2147483648 \<Longrightarrow> to_int32 x = x"
proof -
  assume a: "- 2147483648 \<le> x" "x < 2147483648"
  have "(x + 2147483648) mod 4294967296 = x + 2147483648"
    using a by (intro mod_pos_pos_trivial) linarith+
  then show ?thesis
    unfolding to_int32_def by simp
qed

lemma to_int32_bound: "to_int32 x < 2147483648"
proof -
  have "(x + 2147483648) mod 4294967296 < (4294967296 :: int)"
    by (rule pos_mod_bound) simp
  then show ?thesis
    unfolding to_int32_def by simp
qed

lemma chunk_size_small:
  "0 < r \<Longrightarrow> r < 2147483648 \<Longrightarrow> 0 < chunk_size r \<and> chunk_size r \<le> r"
  using to_int32_small [of r]
  by (simp add: chunk_size_def BUFFER_SIZE_def)

text \<open>The copy loop of a download releases nothing and keeps the handles.\<close>

lemma receive_file_quiet_result:
  assumes "uu_twopence_ssh_receive_file ec tr st w = Some y"
  shows "no_teardown_since t w \<longrightarrow>
     no_teardown_since t (snd (snd (snd y)))
     \<and> t_session (fst (snd y)) = t_session tr \<and> t_scp (fst (snd y)) = t_scp tr"
  using assms
proof (induction rule: uu_twopence_ssh_receive_file.raw_induct [rotated 1, consumes 1])
  case (1 receive ec tr st w y)
  show ?case
  proof
    assume q: "no_teardown_since t w"
    let ?n = "chunk_size (remaining tr)"
    let ?w1 = "advance ''ssh_scp_read'' [I (t_scp tr), I ?n] w"
    let ?w2 = "advance ''twopence_iostream_write'' [I (local_stream tr), I ?n] ?w1"
    have q1: "no_teardown_since t ?w1"
      using q by (simp add: nts_advance)
    then have q2: "no_teardown_since t ?w2"
      by (simp add: nts_advance)
    show "no_teardown_since t (snd (snd (snd y)))
      \<and> t_session (fst (snd y)) = t_session tr \<and> t_scp (fst (snd y)) = t_scp tr"
    proof (cases "0 < remaining tr \<and> next_answer w = ?n \<and> next_answer ?w1 = ?n")
      case True
      with 1(2) have "receive ec (tr\<lparr>remaining := remaining tr - ?n\<rparr>) st
          (snd (uu_twopence_ssh_output CHR ''.'' ?w2)) = Some y"
        by (simp add: ext_def)
      from 1(1) [OF this] nts_output [OF q2] show ?thesis
        by simp
    next
      case False
      with 1(2) q q1 q2 show ?thesis
        by (auto simp: ext_def nts_advance nts_output split: if_splits)
    qed
  qed
qed

lemma receive_file_quiet:
  "uu_twopence_ssh_receive_file ec tr st w = Some (rc, tr', st', w') \<Longrightarrow>
   no_teardown_since t w \<Longrightarrow>
   no_teardown_since t w' \<and> t_session tr' = t_session tr \<and> t_scp tr' = t_scp tr"
  using receive_file_quiet_result [of ec tr st w "(rc, tr', st', w')" t] by simp

text \<open>The copy loop of a download returns when the size fits a 32-bit \<^verbatim>\<open>int\<close>.\<close>

lemma receive_file_returns:
  "remaining tr < 2147483648 \<Longrightarrow> \<exists>r. uu_twopence_ssh_receive_file ec tr st w = Some r"
proof (induction "nat (remaining tr)" arbitrary: tr w rule: less_induct)
  case less
  let ?n = "chunk_size (remaining tr)"
  let ?w1 = "advance ''ssh_scp_read'' [I (t_scp tr), I ?n] w"
  let ?w2 = "advance ''twopence_iostream_write'' [I (local_stream tr), I ?n] ?w1"
  show ?case
  proof (cases "0 < remaining tr \<and> next_answer w = ?n \<and> next_answer ?w1 = ?n")
    case True
    with chunk_size_small [of "remaining tr"] less.prems
    have smaller: "nat (remaining (tr\<lparr>remaining := remaining tr - ?n\<rparr>)) < nat (remaining tr)"
      and small: "remaining (tr\<lparr>remaining := remaining tr - ?n\<rparr>) < 2147483648"
      by simp_all
    from True less.hyps [OF smaller small]
    show ?thesis
      by (subst uu_twopence_ssh_receive_file.simps) (simp add: ext_def)
  next
    case False
    then show ?thesis
      by (subst uu_twopence_ssh_receive_file.simps) (auto simp: ext_def)
  qed
qed

lemma init_copy_quiet:
  "twopence_scp_transfer_init_copy ec tr d r w = (rc1, tr1, w1) \<Longrightarrow> no_teardown_since t w \<Longrightarrow>
     no_teardown_since t w1 \<and> t_session tr1 = t_session tr"
  by (auto simp: twopence_scp_transfer_init_copy_def ext_def Let_def nts_advance split: if_splits)

lemma extract_ssh_quiet:
  assumes q: "no_teardown_since t w"
  shows "\<exists>rc tr' st' w'. uu_twopence_ssh_extract_ssh ec tr xfer st w = Some (rc, tr', st', w')
           \<and> no_teardown_since t w' \<and> t_session tr' = t_session tr"
proof -
  obtain rc1 tr1 w1 where
    ic: "twopence_scp_transfer_init_copy ec tr SSH_SCP_READ (S (remote_name xfer)) w = (rc1, tr1, w1)"
    by (cases "twopence_scp_transfer_init_copy ec tr SSH_SCP_READ (S (remote_name xfer)) w")
  from init_copy_quiet [OF ic q] have q1: "no_teardown_since t w1" and s1: "t_session tr1 = t_session tr"
    by simp_all
  let ?w2 = "advance ''ssh_scp_pull_request'' [I (t_scp tr1)] w1"
  let ?w3 = "advance ''ssh_scp_request_get_size'' [I (t_scp tr1)] ?w2"
  let ?w4 = "advance ''ssh_scp_accept_request'' [I (t_scp tr1)] ?w3"
  let ?trx = "tr1\<lparr>local_stream := xfer_local_stream xfer, remaining := to_int32 (next_answer ?w2)\<rparr>"
  have q2: "no_teardown_since t ?w2"
    using q1 by (simp add: nts_advance)
  then have q3: "no_teardown_since t ?w3"
    by (simp add: nts_advance)
  then have q4: "no_teardown_since t ?w4"
    by (simp add: nts_advance)
  obtain rc5 tr5 st5 w5 where rf: "uu_twopence_ssh_receive_file ec ?trx st ?w4 = Some (rc5, tr5, st5, w5)"
    using receive_file_returns [of ?trx ec st ?w4] to_int32_bound [of "next_answer ?w2"]
    by auto
  from receive_file_quiet [OF rf q4] have q5: "no_teardown_since t w5" and s5: "t_session tr5 = t_session tr1"
    by simp_all
  have q6: "no_teardown_since t (advance ''ssh_scp_pull_request'' [I (t_scp tr5)] w5)"
    using q5 by (simp add: nts_advance)
  have e2: "no_teardown_since t (advance ''ssh_get_error_code'' [I (t_session tr1)] ?w2)"
    using q2 by (simp add: nts_advance)
  have e4: "no_teardown_since t (advance ''ssh_get_error_code'' [I (t_session tr1)] ?w4)"
    using q4 by (simp add: nts_advance)
  have e6: "no_teardown_since t (advance ''ssh_get_error_code'' [I (t_session tr5)]
      (advance ''ssh_scp_pull_request'' [I (t_scp tr5)] w5))"
    using q6 by (simp add: nts_advance)
  show ?thesis
    unfolding uu_twopence_ssh_extract_ssh_def
    using q1 s1 q3 rf q5 s5 q6 e2 e4 e6
    by (simp add: ic ext_def Let_def receive_file_error_def)
qed

text \<open>
  C4. The claim is that every call of inject_file and of extract_file that gets past
  the opening of the session closes and frees the copy handle and disconnects and
  frees the session before it returns. \<open>twopence_ssh_extract_file\<close> never calls
  \<open>twopence_scp_transfer_destroy\<close>: whenever the session has been opened, the call
  returns with the session still in its transfer state, and none of the calls it has
  made since releases anything.
\<close>

theorem extract_file_never_tears_down:
  assumes "uu_twopence_ssh_open_session (template handle) (user xfer) w = (sess, w1)"
    and "sess \<noteq> 0"
  shows "\<exists>rc st status' w'.
           twopence_ssh_extract_file ec handle xfer status w = Some (rc, st, status', w')
           \<and> t_session st = sess \<and> no_teardown_since (trace w1) w'"
proof -
  let ?st1 = "twopence_scp_transfer_init\<lparr>t_session := sess\<rparr>"
  from extract_ssh_quiet [of "trace w1" w1 ec ?st1 xfer status, OF nts_start]
  obtain rc st status' w' where
    "uu_twopence_ssh_extract_ssh ec ?st1 xfer status w1 = Some (rc, st, status', w')"
    "no_teardown_since (trace w1) w'" "t_session st = t_session ?st1"
    by blast
  with assms show ?thesis
    by (simp add: twopence_ssh_extract_file_def twopence_scp_transfer_open_session_def)
qed

text \<open>
  \<open>twopence_ssh_inject_file\<close> destroys the transfer state at its end, but not on its
  early return, when the local stream has no size and cannot be read as a whole.
\<close>

lemma inject_file_early_return:
  assumes "uu_twopence_ssh_open_session (template handle) (user xfer) w = (sess, w1)"
    and "sess \<noteq> 0"
    and "next_answer w1 < 0"
    and "next_answer (advance ''twopence_iostream_filesize'' [I (xfer_local_stream xfer)] w1) = 0"
  shows "twopence_ssh_inject_file ec handle xfer status w =
     Some (ec TWOPENCE_LOCAL_FILE_ERROR, twopence_scp_transfer_init\<lparr>t_session := sess\<rparr>, status,
           advance ''twopence_iostream_read_all'' [I (xfer_local_stream xfer)]
             (advance ''twopence_iostream_filesize'' [I (xfer_local_stream xfer)] w1))"
  using assms
  by (simp add: twopence_ssh_inject_file_def twopence_scp_transfer_open_session_def ext_def Let_def)

lemma extract_world_open:
  "uu_twopence_ssh_open_session (template non_tty_target) (user hosts_xfer) extract_world =
     (5, \<lparr>answers = [6, 0, 2, 0],
          trace = [Call ''ssh_new'' [], Call ''ssh_options_copy'' [I 3, I 5],
                   Call ''ssh_options_set'' [I 5, S ''SSH_OPTIONS_USER'', S ''root''],
                   Call ''ssh_connect'' [I 5], Call ''ssh_userauth_autopubkey'' [I 5]]\<rparr>)"
  by (simp add: uu_twopence_ssh_open_session_def non_tty_target_def hosts_xfer_def
      extract_world_def ext_def stored_def next_answer_def advance_def SSH_OK_def
      SSH_AUTH_SUCCESS_def)

theorem extract_file_never_tears_down_witness:
  "twopence_ssh_extract_file sample_codes non_tty_target hosts_xfer
       \<lparr>major = 0, minor = 0\<rparr> extract_world =
     Some (0, \<lparr>t_session = 5, t_scp = 6, local_stream = 0, remaining = 0\<rparr>,
           \<lparr>major = 0, minor = 0\<rparr>,
           \<lparr>answers = [],
            trace = [Call ''ssh_new'' [], Call ''ssh_options_copy'' [I 3, I 5],
                     Call ''ssh_options_set'' [I 5, S ''SSH_OPTIONS_USER'', S ''root''],
                     Call ''ssh_connect'' [I 5], Call ''ssh_userauth_autopubkey'' [I 5],
                     Call ''ssh_scp_new'' [I 5, I 1, S ''/etc/hosts''],
                     Call ''ssh_scp_init'' [I 6], Call ''ssh_scp_pull_request'' [I 6],
                     Call ''ssh_scp_request_get_size'' [I 6]]\<rparr>)"
  using extract_file_never_tears_down [OF extract_world_open, of sample_codes "\<lparr>major = 0, minor = 0\<rparr>"]
  unfolding twopence_ssh_extract_file_def twopence_scp_transfer_open_session_def
    extract_world_open
  by (simp add: twopence_scp_transfer_init_def uu_twopence_ssh_extract_ssh_def
      twopence_scp_transfer_init_copy_def remote_status_rc_def hosts_xfer_def to_int32_def
      ext_def next_answer_def advance_def SSH_OK_def SSH_SCP_READ_def
      SSH_SCP_REQUEST_NEWFILE_def)


end
